theory Spec2Isabelle
  imports Main "HOL-Library.AList" "HOL-Library.Sublist"
begin

section \<open>Strings and JSON text\<close>

text \<open>
  Header values and messages are JavaScript strings; the ones that occur here are in the
  Latin-1 range, so a string is a list of 8-bit characters.
\<close>

definition startsWith :: "string \<Rightarrow> string \<Rightarrow> bool" where
  "startsWith s p = (take (length p) s = p)"

text \<open>
  \<open>String.prototype.trim\<close> removes white space and line terminators from both ends. Of
  the code points it removes, these lie in the 8-bit range: TAB, LF, VT, FF, CR, SPACE and
  NBSP.
\<close>

definition isWhiteSpace :: "char \<Rightarrow> bool" where
  "isWhiteSpace c = (of_char c \<in> {9, 10, 11, 12, 13, 32, 160 :: nat})"

definition trim :: "string \<Rightarrow> string" where
  "trim s = rev (dropWhile isWhiteSpace (rev (dropWhile isWhiteSpace s)))"

definition digit_char :: "nat \<Rightarrow> char" where
  "digit_char d = ''0123456789'' ! (d mod 10)"

fun show_nat :: "nat \<Rightarrow> string" where
  "show_nat n = (if n < 10 then [digit_char n] else show_nat (n div 10) @ [digit_char (n mod 10)])"

declare show_nat.simps [simp del]

definition show_int :: "int \<Rightarrow> string" where
  "show_int i = (if i < 0 then CHR ''-'' # show_nat (nat (- i)) else show_nat (nat i))"

definition hex_digit :: "nat \<Rightarrow> char" where
  "hex_digit d = ''0123456789abcdef'' ! (d mod 16)"

text \<open>
  \<open>JSON.stringify\<close> on the values this program serialises: objects of strings, integers
  and null, with the members in insertion order and no white space.
\<close>

datatype json = JNull | JNumber int | JString string | JObject "(string \<times> json) list"

definition escape_char :: "char \<Rightarrow> string" where
  "escape_char c =
     (if c = CHR 0x22 then [CHR 0x5C, CHR 0x22]
      else if c = CHR 0x5C then [CHR 0x5C, CHR 0x5C]
      else if c = CHR 0x08 then [CHR 0x5C, CHR ''b'']
      else if c = CHR 0x0C then [CHR 0x5C, CHR ''f'']
      else if c = CHR 0x0A then [CHR 0x5C, CHR ''n'']
      else if c = CHR 0x0D then [CHR 0x5C, CHR ''r'']
      else if c = CHR 0x09 then [CHR 0x5C, CHR ''t'']
      else if (of_char c :: nat) < 32
        then [CHR 0x5C, CHR ''u'', CHR ''0'', CHR ''0'',
              hex_digit (of_char c div 16), hex_digit (of_char c mod 16)]
      else [c])"

definition quote :: "string \<Rightarrow> string" where
  "quote s = CHR 0x22 # concat (map escape_char s) @ [CHR 0x22]"

fun stringify :: "json \<Rightarrow> string"
  and stringify_members :: "(string \<times> json) list \<Rightarrow> string" where
  "stringify JNull = ''null''"
| "stringify (JNumber n) = show_int n"
| "stringify (JString s) = quote s"
| "stringify (JObject ms) = ''{'' @ stringify_members ms @ ''}''"
| "stringify_members [] = []"
| "stringify_members [(k, v)] = quote k @ '':'' @ stringify v"
| "stringify_members ((k, v) # m # ms) =
     quote k @ '':'' @ stringify v @ '','' @ stringify_members (m # ms)"

section \<open>Requests and responses\<close>

text \<open>
  What the handler reads of a request: \<open>req.method\<close>, the headers \<open>mcp-session-id\<close> and
  \<open>authorization\<close> (\<open>None\<close> is \<open>undefined\<close>), and the parsed body.
\<close>

record 'b request =
  http_method :: string
  mcp_session_id :: "string option"
  authorization :: "string option"
  body :: 'b

record response =
  statusCode :: nat
  content_type :: string
  payload :: string

text \<open>\<open>sendJsonRpcError\<close>: the error code is the constant -32000.\<close>

definition sendJsonRpcError :: "nat \<Rightarrow> string \<Rightarrow> response" where
  "sendJsonRpcError status message =
     \<lparr>statusCode = status,
      content_type = ''application/json'',
      payload = stringify (JObject
        [(''jsonrpc'', JString ''2.0''),
         (''error'', JObject [(''code'', JNumber (- 32000)), (''message'', JString message)]),
         (''id'', JNull)])\<rparr>"

text \<open>The 404 response that the handler writes inline, with error code -32001.\<close>

definition session_not_found :: response where
  "session_not_found =
     \<lparr>statusCode = 404,
      content_type = ''application/json'',
      payload = stringify (JObject
        [(''jsonrpc'', JString ''2.0''),
         (''error'', JObject [(''code'', JNumber (- 32001)),
                              (''message'', JString ''Session not found'')]),
         (''id'', JNull)])\<rparr>"

text \<open>
  \<open>extractBearerToken\<close>: \<open>!header\<close> holds for \<open>undefined\<close> and for the empty string;
  \<open>token || null\<close> turns the empty token into \<open>null\<close>.
\<close>

definition extractBearerToken :: "string option \<Rightarrow> string option" where
  "extractBearerToken header =
     (case header of
        None \<Rightarrow> None
      | Some h \<Rightarrow>
          if h = [] \<or> \<not> startsWith h ''Bearer '' then None
          else let token = trim (drop (length ''Bearer '') h)
               in if token = [] then None else Some token)"

section \<open>Session identifiers\<close>

text \<open>
  \<open>randomUUID\<close> of \<open>node:crypto\<close> returns a version-4 UUID in its 36-character text form:
  32 lower-case hexadecimal digits in groups of 8, 4, 4, 4 and 12, the first digit of the
  third group being 4 and the first digit of the fourth group carrying the variant bits.
  The random bits it draws are an input of the model.
\<close>

definition nibble :: "nat \<Rightarrow> nat \<Rightarrow> nat" where
  "nibble n i = (n div 16 ^ (31 - i)) mod 16"

definition uuid_nibble :: "nat \<Rightarrow> nat \<Rightarrow> nat" where
  "uuid_nibble n i =
     (if i = 12 then 4 else if i = 16 then 8 + nibble n i mod 4 else nibble n i)"

definition hex_run :: "nat \<Rightarrow> nat list \<Rightarrow> string" where
  "hex_run n is = map (\<lambda>i. hex_digit (uuid_nibble n i)) is"

definition randomUUID :: "nat \<Rightarrow> string" where
  "randomUUID n =
     hex_run n [0..<8] @ ''-'' @ hex_run n [8..<12] @ ''-'' @ hex_run n [12..<16] @ ''-'' @
     hex_run n [16..<20] @ ''-'' @ hex_run n [20..<32]"

section \<open>The session registry\<close>

text \<open>
  \<open>sessions\<close> is a plain object (\<open>{}\<close>) used as a dictionary from session identifier to
  transport. Its own properties are an association list in insertion order (the order of
  \<open>Object.keys\<close>); a transport is the index of a \<open>StreamableHTTPServerTransport\<close> object
  in the heap of the process. A read \<open>sessions[k]\<close> of a name that is not an own property
  finds the members the object inherits from \<open>Object.prototype\<close>.
\<close>

type_synonym registry = "(string \<times> nat) list"

definition object_prototype_names :: "string list" where
  "object_prototype_names =
     [''constructor'', ''toString'', ''toLocaleString'', ''valueOf'', ''hasOwnProperty'',
      ''isPrototypeOf'', ''propertyIsEnumerable'', ''__proto__'', ''__defineGetter__'',
      ''__defineSetter__'', ''__lookupGetter__'', ''__lookupSetter__'']"

datatype member = Own nat | Inherited | Undefined

definition get_member :: "registry \<Rightarrow> string \<Rightarrow> member" where
  "get_member reg k =
     (case map_of reg k of
        Some t \<Rightarrow> Own t
      | None \<Rightarrow> if k \<in> set object_prototype_names then Inherited else Undefined)"

text \<open>Truthiness: every object and function is truthy, \<open>undefined\<close> is not.\<close>

fun truthy :: "member \<Rightarrow> bool" where
  "truthy (Own t) = True"
| "truthy Inherited = True"
| "truthy Undefined = False"

text \<open>A value of type \<open>string | undefined | null\<close> is falsy when it is missing or empty.\<close>

fun falsy :: "string option \<Rightarrow> bool" where
  "falsy None = True"
| "falsy (Some s) = (s = [])"

section \<open>The process state\<close>

record server_options =
  senderEmailAddress :: "string option"
  replierEmailAddresses :: "string list"

text \<open>
  A \<open>StreamableHTTPServerTransport\<close>: the session identifier it holds once the handshake
  has completed, whether it was closed, and the protocol server whose handlers
  \<open>server.connect\<close> installed on it.
\<close>

record transport =
  sessionId :: "string option"
  closed :: bool
  connected_server :: "nat option"

text \<open>An \<open>McpServer\<close> built by \<open>createMcpServer\<close>: its tools close over one client handle
  and the options.\<close>

record mcp_server =
  resend :: nat
  options :: server_options

datatype signal = SIGINT | SIGTERM

text \<open>The two functions the program registers as signal listeners:
  \<open>() => process.exit(0)\<close> of the entry point and \<open>shutdown\<close> of \<open>runHttp\<close>.\<close>

datatype listener = ExitZero | Shutdown

text \<open>
  The objects the program allocates live in lists, and an object reference is an index:
  \<open>clients\<close> holds the \<open>Resend\<close> handles (each is the API key it was constructed from),
  \<open>servers\<close> the protocol servers, \<open>transports\<close> the HTTP transports and
  \<open>stdio_transports\<close> the \<open>StdioServerTransport\<close> objects (each is the server connected
  to it). \<open>minted\<close> records every value \<open>sessionIdGenerator\<close> has returned; the
  program itself keeps no such record.
\<close>

record process =
  sessions :: registry
  transports :: "transport list"
  stdio_transports :: "nat list"
  servers :: "mcp_server list"
  clients :: "string list"
  minted :: "string list"
  listening :: bool
  listeners :: "(signal \<times> listener) list"
  exit_code :: "int option"

definition initial :: process where
  "initial =
     \<lparr>sessions = [], transports = [], stdio_transports = [], servers = [], clients = [],
      minted = [], listening = False, listeners = [], exit_code = None\<rparr>"

text \<open>\<open>new Resend(apiKey)\<close>\<close>

definition new_Resend :: "string \<Rightarrow> process \<Rightarrow> nat \<times> process" where
  "new_Resend apiKey s = (length (clients s), s\<lparr>clients := clients s @ [apiKey]\<rparr>)"

text \<open>\<open>createMcpServer(resend, options)\<close>: every tool is registered against \<open>resend\<close>.\<close>

definition createMcpServer :: "nat \<Rightarrow> server_options \<Rightarrow> process \<Rightarrow> nat \<times> process" where
  "createMcpServer c opts s =
     (length (servers s), s\<lparr>servers := servers s @ [\<lparr>resend = c, options = opts\<rparr>]\<rparr>)"

text \<open>\<open>new StreamableHTTPServerTransport({...})\<close>: no session identifier yet.\<close>

definition new_transport :: "process \<Rightarrow> nat \<times> process" where
  "new_transport s =
     (length (transports s),
      s\<lparr>transports := transports s @
         [\<lparr>sessionId = None, closed = False, connected_server = None\<rparr>]\<rparr>)"

text \<open>\<open>server.connect(transport)\<close>\<close>

definition connect :: "nat \<Rightarrow> nat \<Rightarrow> process \<Rightarrow> process" where
  "connect v t s =
     s\<lparr>transports := (transports s)[t := (transports s ! t)\<lparr>connected_server := Some v\<rparr>]\<rparr>"

text \<open>The callback \<open>onsessioninitialized\<close> of the create path: \<open>sessions[sid] = transport\<close>.
  It is only ever called with a value of \<open>randomUUID\<close>.\<close>

definition onsessioninitialized :: "nat \<Rightarrow> string \<Rightarrow> process \<Rightarrow> process" where
  "onsessioninitialized t sid s = s\<lparr>sessions := AList.update sid t (sessions s)\<rparr>"

text \<open>The callback \<open>transport.onclose\<close> of the create path.\<close>

definition onclose :: "nat \<Rightarrow> process \<Rightarrow> process" where
  "onclose t s =
     (case sessionId (transports s ! t) of
        None \<Rightarrow> s
      | Some sid \<Rightarrow>
          if sid \<noteq> [] \<and> truthy (get_member (sessions s) sid)
          then s\<lparr>sessions := AList.delete sid (sessions s)\<rparr>
          else s)"

section \<open>The transport of the protocol library\<close>

text \<open>
  \<open>StreamableHTTPServerTransport\<close> belongs to the protocol library, not to this program.
  What the program relies on is modelled here. \<open>close()\<close> marks the transport closed and
  calls \<open>onclose\<close>. \<open>handleRequest\<close> does one of three things, which is an input of the
  model: the handshake completes (\<open>Handshake r\<close>: on a transport that has no session
  identifier yet, \<open>sessionIdGenerator\<close> is called, drawing the random bits \<open>r\<close>, the
  identifier is stored in the transport and \<open>onsessioninitialized\<close> is called with it; a
  transport that is already initialised refuses a second handshake); the request is
  served with no effect on the session (\<open>Plain\<close>, which includes a handshake that is
  refused or aborted); or the client ends the session (\<open>Terminate\<close>: the transport closes
  itself).
\<close>

datatype sdk_event = Handshake nat | Plain | Terminate

definition transport_close :: "nat \<Rightarrow> process \<Rightarrow> process" where
  "transport_close t s =
     onclose t (s\<lparr>transports := (transports s)[t := (transports s ! t)\<lparr>closed := True\<rparr>]\<rparr>)"

definition sessionIdGenerator :: "nat \<Rightarrow> string" where
  "sessionIdGenerator r = randomUUID r"

definition transport_handleRequest :: "nat \<Rightarrow> sdk_event \<Rightarrow> process \<Rightarrow> process" where
  "transport_handleRequest t ev s =
     (case ev of
        Handshake r \<Rightarrow>
          if sessionId (transports s ! t) = None
          then let sid = sessionIdGenerator r
               in onsessioninitialized t sid
                    (s\<lparr>transports := (transports s)[t := (transports s ! t)\<lparr>sessionId := Some sid\<rparr>],
                       minted := minted s @ [sid]\<rparr>)
          else s
      | Plain \<Rightarrow> s
      | Terminate \<Rightarrow> transport_close t s)"

section \<open>The request handler of \<open>runHttp\<close>\<close>

text \<open>
  The construction steps of the create path, up to and including
  \<open>await server.connect(transport)\<close>: a client handle from the API key, a transport, and a
  protocol server bound to the handle and connected to the transport. The registry is
  not written here.
\<close>

definition create_session :: "string \<Rightarrow> server_options \<Rightarrow> process \<Rightarrow> nat \<times> process" where
  "create_session apiKey opts s =
     (let (c, s1) = new_Resend apiKey s;
          (t, s2) = new_transport s1;
          (v, s3) = createMcpServer c opts s2
      in (t, connect v t s3))"

text \<open>The four arms of the handler's \<open>if\<close> chain, tested in the order of the source.\<close>

datatype branch = Continuation | CreatePath | NotFound | BadRequest

definition select_branch :: "('b \<Rightarrow> bool) \<Rightarrow> registry \<Rightarrow> 'b request \<Rightarrow> branch" where
  "select_branch isInitializeRequest reg req =
     (let sid = mcp_session_id req
      in if \<not> falsy sid \<and> truthy (get_member reg (the sid)) then Continuation
         else if falsy sid \<and> http_method req = ''POST'' \<and> isInitializeRequest (body req)
           then CreatePath
         else if \<not> falsy sid \<and> \<not> truthy (get_member reg (the sid)) then NotFound
         else BadRequest)"

text \<open>
  What a run of the handler ends in: it wrote a response itself and returned, or it
  reached \<open>transport.handleRequest(req, res, req.body)\<close> on a transport, or that call
  threw because \<open>transport\<close> is a member inherited from \<open>Object.prototype\<close>, which has no
  \<open>handleRequest\<close>.
\<close>

datatype outcome = Replied response | Handled nat | Threw

definition unauthorized_message :: string where
  "unauthorized_message =
     ''Unauthorized: provide a Resend API key via Authorization: Bearer <key>''"

text \<open>The create path: the body of the second arm.\<close>

definition create_path ::
  "server_options \<Rightarrow> 'b request \<Rightarrow> sdk_event \<Rightarrow> process \<Rightarrow> outcome \<times> process"
where
  "create_path opts req ev s =
     (let apiKey = extractBearerToken (authorization req)
      in if falsy apiKey then (Replied (sendJsonRpcError 401 unauthorized_message), s)
         else let (t, s1) = create_session (the apiKey) opts s
              in (Handled t, transport_handleRequest t ev s1))"

definition handle_request ::
  "('b \<Rightarrow> bool) \<Rightarrow> server_options \<Rightarrow> 'b request \<Rightarrow> sdk_event \<Rightarrow> process \<Rightarrow> outcome \<times> process"
where
  "handle_request isInitializeRequest opts req ev s =
     (case select_branch isInitializeRequest (sessions s) req of
        Continuation \<Rightarrow>
          (case get_member (sessions s) (the (mcp_session_id req)) of
             Own t \<Rightarrow> (Handled t, transport_handleRequest t ev s)
           | _ \<Rightarrow> (Threw, s))
      | CreatePath \<Rightarrow> create_path opts req ev s
      | NotFound \<Rightarrow> (Replied session_not_found, s)
      | BadRequest \<Rightarrow>
          (Replied (sendJsonRpcError 400 ''Bad Request: No valid session ID provided''), s))"

section \<open>Shutdown and signals\<close>

definition server_close :: "process \<Rightarrow> process" where
  "server_close s = s\<lparr>listening := False\<rparr>"

definition process_exit :: "int \<Rightarrow> process \<Rightarrow> process" where
  "process_exit c s = s\<lparr>exit_code := Some c\<rparr>"

text \<open>
  \<open>try { await sessions[sid].close() } catch { }\<close>: \<open>fails t\<close> says that \<open>close()\<close> of
  transport \<open>t\<close> throws, before it has done anything. Reading \<open>close\<close> from a missing or
  inherited member throws as well, and every throw is caught.
\<close>

definition try_close :: "(nat \<Rightarrow> bool) \<Rightarrow> string \<Rightarrow> process \<Rightarrow> process" where
  "try_close fails sid s =
     (case get_member (sessions s) sid of
        Own t \<Rightarrow> if fails t then s else transport_close t s
      | _ \<Rightarrow> s)"

text \<open>The loop of \<open>shutdown\<close> over the snapshot \<open>Object.keys(sessions)\<close>.\<close>

fun shutdown_loop :: "(nat \<Rightarrow> bool) \<Rightarrow> string list \<Rightarrow> process \<Rightarrow> process" where
  "shutdown_loop fails [] s = s"
| "shutdown_loop fails (sid # sids) s =
     shutdown_loop fails sids
       (let s1 = try_close fails sid s in s1\<lparr>sessions := AList.delete sid (sessions s1)\<rparr>)"

definition shutdown :: "(nat \<Rightarrow> bool) \<Rightarrow> process \<Rightarrow> process" where
  "shutdown fails s =
     process_exit 0 (server_close (shutdown_loop fails (map fst (sessions s)) s))"

text \<open>
  \<open>shutdown\<close> is an \<open>async\<close> function called as a listener. It runs up to its first
  \<open>await\<close> and returns to the emitter: with no session it reaches \<open>process.exit(0)\<close> at
  once; otherwise it has called \<open>close()\<close> on the first session and is suspended, with
  that identifier and the rest of the snapshot still to be handled.
\<close>

definition shutdown_start :: "(nat \<Rightarrow> bool) \<Rightarrow> process \<Rightarrow> (string \<times> string list) option \<times> process" where
  "shutdown_start fails s =
     (case map fst (sessions s) of
        [] \<Rightarrow> (None, process_exit 0 (server_close s))
      | sid # sids \<Rightarrow> (Some (sid, sids), try_close fails sid s))"

definition shutdown_resume :: "(nat \<Rightarrow> bool) \<Rightarrow> string \<times> string list \<Rightarrow> process \<Rightarrow> process" where
  "shutdown_resume fails k s =
     process_exit 0 (server_close
       (shutdown_loop fails (snd k) (s\<lparr>sessions := AList.delete (fst k) (sessions s)\<rparr>)))"

text \<open>
  Delivery of a signal: the listeners registered for it are called in the order of their
  registration. \<open>process.exit\<close> ends the process on the spot, so no later listener and no
  suspended \<open>shutdown\<close> runs after it. A suspended \<open>shutdown\<close> resumes once the emitter
  has called every listener.
\<close>

fun resume_all :: "(nat \<Rightarrow> bool) \<Rightarrow> (string \<times> string list) list \<Rightarrow> process \<Rightarrow> process" where
  "resume_all fails [] s = s"
| "resume_all fails (k # ks) s =
     (if exit_code s \<noteq> None then s else resume_all fails ks (shutdown_resume fails k s))"

fun run_listeners ::
  "(nat \<Rightarrow> bool) \<Rightarrow> listener list \<Rightarrow> (string \<times> string list) list \<Rightarrow> process \<Rightarrow> process"
where
  "run_listeners fails [] pending s = resume_all fails pending s"
| "run_listeners fails (l # ls) pending s =
     (if exit_code s \<noteq> None then s
      else case l of
        ExitZero \<Rightarrow> process_exit 0 s
      | Shutdown \<Rightarrow>
          (case shutdown_start fails s of
             (None, s1) \<Rightarrow> s1
           | (Some k, s1) \<Rightarrow> run_listeners fails ls (pending @ [k]) s1))"

definition deliver_signal :: "(nat \<Rightarrow> bool) \<Rightarrow> signal \<Rightarrow> process \<Rightarrow> process" where
  "deliver_signal fails sg s =
     run_listeners fails (map snd (filter (\<lambda>p. fst p = sg) (listeners s))) [] s"

section \<open>The transports and the entry point\<close>

text \<open>\<open>runStdio\<close>: one protocol server on the given handle, connected to one
  \<open>StdioServerTransport\<close>.\<close>

definition runStdio :: "nat \<Rightarrow> server_options \<Rightarrow> process \<Rightarrow> process" where
  "runStdio c opts s =
     (let (v, s1) = createMcpServer c opts s
      in s1\<lparr>stdio_transports := stdio_transports s1 @ [v]\<rparr>)"

text \<open>\<open>runHttp\<close>: the route is installed, the listener starts (a start that fails is the
  fatal error path and is not modelled), and \<open>shutdown\<close> is registered for both signals.\<close>

definition runHttp :: "process \<Rightarrow> process" where
  "runHttp s =
     s\<lparr>listening := True,
       listeners := listeners s @ [(SIGINT, Shutdown), (SIGTERM, Shutdown)]\<rparr>"

datatype transport_mode = StdioMode | HttpMode

record config =
  apiKey :: string
  transport_mode :: transport_mode
  server_opts :: server_options

text \<open>The entry point: it registers its own listeners for both signals first, then starts
  the configured transport. Only the stdio branch constructs a client handle.\<close>

definition main :: "config \<Rightarrow> process" where
  "main cfg =
     (let s0 = initial\<lparr>listeners := [(SIGINT, ExitZero), (SIGTERM, ExitZero)]\<rparr>
      in if transport_mode cfg = HttpMode then runHttp s0
         else let (c, s1) = new_Resend (apiKey cfg) s0
              in runStdio c (server_opts cfg) s1)"

text \<open>
  What can happen to the running process: an HTTP request reaches the route (only while
  the listener is up), the channel of a transport closes, or a signal is delivered. A
  process that has exited does nothing more.
\<close>

datatype 'b event = Request "'b request" sdk_event | ChannelClosed nat | Signal signal

definition step ::
  "('b \<Rightarrow> bool) \<Rightarrow> server_options \<Rightarrow> (nat \<Rightarrow> bool) \<Rightarrow> 'b event \<Rightarrow> process \<Rightarrow> process"
where
  "step isInitializeRequest opts fails e s =
     (if exit_code s \<noteq> None then s
      else case e of
        Request req ev \<Rightarrow>
          if listening s then snd (handle_request isInitializeRequest opts req ev s) else s
      | ChannelClosed t \<Rightarrow> if t < length (transports s) then transport_close t s else s
      | Signal sg \<Rightarrow> deliver_signal fails sg s)"

fun run ::
  "('b \<Rightarrow> bool) \<Rightarrow> server_options \<Rightarrow> (nat \<Rightarrow> bool) \<Rightarrow> 'b event list \<Rightarrow> process \<Rightarrow> process"
where
  "run isInitializeRequest opts fails [] s = s"
| "run isInitializeRequest opts fails (e # es) s =
     run isInitializeRequest opts fails es (step isInitializeRequest opts fails e s)"

section \<open>Observations and invariants\<close>

text \<open>
  The client handle a transport is bound to: the handle of the protocol server connected
  to it, and the API key that handle was constructed from. Every tool call that arrives
  on the transport goes through this handle.
\<close>

definition bound_handle :: "process \<Rightarrow> nat \<Rightarrow> nat option" where
  "bound_handle s t =
     (if t < length (transports s) then
        (case connected_server (transports s ! t) of
           None \<Rightarrow> None
         | Some v \<Rightarrow> if v < length (servers s) then Some (resend (servers s ! v)) else None)
      else None)"

definition bound_credential :: "process \<Rightarrow> nat \<Rightarrow> string option" where
  "bound_credential s t =
     (case bound_handle s t of
        None \<Rightarrow> None
      | Some c \<Rightarrow> if c < length (clients s) then Some (clients s ! c) else None)"

text \<open>Every registry entry names a transport that holds the entry's key as its session
  identifier.\<close>

definition registry_ok :: "process \<Rightarrow> bool" where
  "registry_ok s =
     (\<forall>sid t. map_of (sessions s) sid = Some t \<longrightarrow>
        t < length (transports s) \<and> sessionId (transports s ! t) = Some sid)"

text \<open>Every identifier a transport holds was returned by the generator, and every such
  value has the 36 characters of a UUID.\<close>

definition ids_ok :: "process \<Rightarrow> bool" where
  "ids_ok s =
     ((\<forall>t < length (transports s). \<forall>sid. sessionId (transports s ! t) = Some sid \<longrightarrow>
         sid \<in> set (minted s)) \<and>
      (\<forall>sid \<in> set (minted s). length sid = 36))"

text \<open>Every transport is connected to a server with a client handle, and no two
  transports have the same handle.\<close>

definition wired :: "process \<Rightarrow> bool" where
  "wired s =
     ((\<forall>t < length (transports s). \<exists>c. bound_handle s t = Some c \<and> c < length (clients s)) \<and>
      (\<forall>t < length (transports s). \<forall>t' < length (transports s).
         bound_handle s t = bound_handle s t' \<longrightarrow> t = t'))"

definition consistent :: "process \<Rightarrow> bool" where
  "consistent s = (registry_ok s \<and> ids_ok s \<and> wired s)"

text \<open>One state extends another when every object of the first is still there, wired as
  it was: nothing that binds a transport to a credential has been overwritten.\<close>

definition extends :: "process \<Rightarrow> process \<Rightarrow> bool" where
  "extends s s' =
     (prefix (map connected_server (transports s)) (map connected_server (transports s')) \<and>
      prefix (servers s) (servers s') \<and> prefix (clients s) (clients s'))"

text \<open>The form the specification asks of the \<open>Authorization\<close> header: \<open>Bearer <token>\<close>
  with a token that is not empty after trimming.\<close>

definition bearer_form :: "string option \<Rightarrow> bool" where
  "bearer_form header = (\<exists>tok. header = Some (''Bearer '' @ tok) \<and> trim tok \<noteq> [])"

text \<open>An initialize request: a POST whose body the protocol library recognises as an
  initialize message.\<close>

definition initialize_request :: "('b \<Rightarrow> bool) \<Rightarrow> 'b request \<Rightarrow> bool" where
  "initialize_request isInitializeRequest req =
     (http_method req = ''POST'' \<and> isInitializeRequest (body req))"

text \<open>A change of state that allocates nothing, mints nothing and binds nothing: transports
  keep their identifiers and their servers, and registry entries are at most removed.
  Closing a transport, deleting a key and the whole of shutdown are changes of this kind.\<close>

definition only_removes :: "process \<Rightarrow> process \<Rightarrow> bool" where
  "only_removes s s' =
     (map sessionId (transports s') = map sessionId (transports s) \<and>
      map connected_server (transports s') = map connected_server (transports s) \<and>
      servers s' = servers s \<and> clients s' = clients s \<and> minted s' = minted s \<and>
      stdio_transports s' = stdio_transports s \<and> listeners s' = listeners s \<and>
      map_of (sessions s') \<subseteq>\<^sub>m map_of (sessions s))"

text \<open>The status of the response, when the handler itself replied.\<close>

fun replied_status :: "outcome \<Rightarrow> nat option" where
  "replied_status (Replied r) = Some (statusCode r)"
| "replied_status (Handled t) = None"
| "replied_status Threw = None"



section \<open>Example inputs\<close>

text \<open>Concrete inputs on which the theorems are exercised. A body is \<open>True\<close> when it is an
  initialize message, so the recogniser of initialize messages is the identity.\<close>

definition example_options :: server_options where
  "example_options = \<lparr>senderEmailAddress = None, replierEmailAddresses = []\<rparr>"

definition example_request :: "string \<Rightarrow> string option \<Rightarrow> string option \<Rightarrow> bool \<Rightarrow> bool request" where
  "example_request m sid auth b =
     \<lparr>http_method = m, mcp_session_id = sid, authorization = auth, body = b\<rparr>"

definition http_config :: config where
  "http_config = \<lparr>apiKey = [], transport_mode = HttpMode, server_opts = example_options\<rparr>"

text \<open>An initialize request without session header that presents the API key \<open>k\<close>.\<close>

definition bearer_request :: "string \<Rightarrow> bool request" where
  "bearer_request k = example_request ''POST'' None (Some (''Bearer '' @ k)) True"

text \<open>The network-mode process after one session, and after two sessions with different
  keys, have been established; and after two sessions for which the generator drew the
  same random bits.\<close>

definition one_session :: process where
  "one_session =
     run (\<lambda>b. b) example_options (\<lambda>t. False)
       [Request (bearer_request ''re_A'') (Handshake 0)] (main http_config)"


definition colliding_sessions :: process where
  "colliding_sessions =
     run (\<lambda>b. b) example_options (\<lambda>t. False)
       [Request (bearer_request ''re_A'') (Handshake 0),
        Request (bearer_request ''re_B'') (Handshake 0)] (main http_config)"

definition stdio_config :: config where
  "stdio_config = \<lparr>apiKey = ''re_local'', transport_mode = StdioMode, server_opts = example_options\<rparr>"

section \<open>Basic facts about the string functions\<close>

lemma upt_groups:
  "[0..<8] = [0,1,2,3,4,5,6,7]" "[8..<12] = [8,9,10,11]" "[12..<16] = [12,13,14,15]"
  "[16..<20] = [16,17,18,19]" "[20..<32] = [20,21,22,23,24,25,26,27,28,29,30,31]"
  by (simp_all add: upt_rec_numeral upt_conv_Cons)

lemma randomUUID_length: "length (randomUUID r) = 36"
  by (simp add: randomUUID_def hex_run_def)

lemma randomUUID_not_inherited: "randomUUID r \<notin> set object_prototype_names"
proof
  assume "randomUUID r \<in> set object_prototype_names"
  then have "length (randomUUID r) \<in> length ` set object_prototype_names" by (rule imageI)
  then show False unfolding randomUUID_length by (simp add: object_prototype_names_def)
qed

lemma len36_not_inherited: "length sid = 36 \<Longrightarrow> sid \<notin> set object_prototype_names"
  by (auto simp: object_prototype_names_def)

lemma extract_iff: "extractBearerToken h \<noteq> None \<longleftrightarrow> bearer_form h"
proof (cases h)
  case None
  then show ?thesis by (simp add: extractBearerToken_def bearer_form_def)
next
  case (Some x)
  show ?thesis
  proof
    assume a: "extractBearerToken h \<noteq> None"
    define n where "n = length ''Bearer ''"
    from a Some have sw: "take n x = ''Bearer ''" and tr: "trim (drop n x) \<noteq> []"
      unfolding extractBearerToken_def startsWith_def n_def
      by (auto simp del: list.size length_Cons simp: Let_def split: if_splits)
    have "x = take n x @ drop n x" by simp
    with sw have "x = ''Bearer '' @ drop n x" by simp
    with tr Some show "bearer_form h" unfolding bearer_form_def by blast
  next
    assume "bearer_form h"
    then obtain tok where "h = Some (''Bearer '' @ tok)" "trim tok \<noteq> []"
      unfolding bearer_form_def by blast
    then show "extractBearerToken h \<noteq> None"
      by (simp add: extractBearerToken_def startsWith_def)
  qed
qed

lemma extract_nonempty: "extractBearerToken h = Some k \<Longrightarrow> k \<noteq> []"
  by (auto simp: extractBearerToken_def Let_def split: option.splits if_splits)

lemma map_update_same: "f y = f (xs ! t) \<Longrightarrow> map f (xs[t := y]) = map f xs"
  by (cases "t < length xs") (simp_all add: map_update list_update_same_conv list_update_beyond)

lemma onclose_frame [simp]:
  "transports (onclose t s) = transports s" "servers (onclose t s) = servers s"
  "clients (onclose t s) = clients s" "minted (onclose t s) = minted s"
  "listening (onclose t s) = listening s" "listeners (onclose t s) = listeners s"
  "exit_code (onclose t s) = exit_code s" "stdio_transports (onclose t s) = stdio_transports s"
  by (simp_all add: onclose_def split: option.splits)

lemma delete_map_le: "map_of (AList.delete k al) \<subseteq>\<^sub>m map_of al"
  by (simp add: AList.delete_conv' map_le_def)

lemma onclose_sessions: "map_of (sessions (onclose t s)) \<subseteq>\<^sub>m map_of (sessions s)"
  by (simp add: onclose_def delete_map_le split: option.splits)

lemma transport_close_frame [simp]:
  "length (transports (transport_close t s)) = length (transports s)"
  "map sessionId (transports (transport_close t s)) = map sessionId (transports s)"
  "map connected_server (transports (transport_close t s)) = map connected_server (transports s)"
  "servers (transport_close t s) = servers s" "clients (transport_close t s) = clients s"
  "minted (transport_close t s) = minted s" "listening (transport_close t s) = listening s"
  "listeners (transport_close t s) = listeners s" "exit_code (transport_close t s) = exit_code s"
  "stdio_transports (transport_close t s) = stdio_transports s"
  by (simp_all add: transport_close_def map_update_same)

lemma transport_close_sessions:
  "map_of (sessions (transport_close t s)) \<subseteq>\<^sub>m map_of (sessions s)"
  unfolding transport_close_def using onclose_sessions[of t "s\<lparr>transports := (transports s)[t := (transports s ! t)\<lparr>closed := True\<rparr>]\<rparr>"] by simp

lemma nth_of_map_eq:
  "map f xs = map f ys \<Longrightarrow> i < length ys \<Longrightarrow> f (xs ! i) = f (ys ! i)"
proof -
  assume a: "map f xs = map f ys" and b: "i < length ys"
  from a have l: "length xs = length ys" by (rule map_eq_imp_length_eq)
  from a have "map f xs ! i = map f ys ! i" by simp
  with b l show ?thesis by simp
qed

lemma bound_handle_cong:
  assumes "map connected_server (transports s') = map connected_server (transports s)"
    and "servers s' = servers s"
  shows "bound_handle s' t = bound_handle s t"
proof -
  from assms(1) have l: "length (transports s') = length (transports s)"
    by (rule map_eq_imp_length_eq)
  show ?thesis
  proof (cases "t < length (transports s)")
    case True
    then have "connected_server (transports s' ! t) = connected_server (transports s ! t)"
      using assms(1) by (rule nth_of_map_eq[rotated])
    then show ?thesis using True l assms(2) by (simp add: bound_handle_def split: option.splits)
  next
    case False
    then show ?thesis using l by (simp add: bound_handle_def)
  qed
qed

lemma only_removes_refl: "only_removes s s"
  by (simp add: only_removes_def)

lemma only_removes_trans [trans]:
  "only_removes s s' \<Longrightarrow> only_removes s' s'' \<Longrightarrow> only_removes s s''"
  by (auto simp: only_removes_def intro: map_le_trans)

lemma only_removes_length: "only_removes s s' \<Longrightarrow> length (transports s') = length (transports s)"
  unfolding only_removes_def by (blast dest: map_eq_imp_length_eq)

lemma only_removes_inv:
  assumes r: "only_removes s s'" and i: "consistent s"
  shows "consistent s'"
proof -
  have l: "length (transports s') = length (transports s)" using r by (rule only_removes_length)
  have sid: "\<And>t. t < length (transports s) \<Longrightarrow> sessionId (transports s' ! t) = sessionId (transports s ! t)"
  proof -
    fix t assume "t < length (transports s)"
    moreover from r have "map sessionId (transports s') = map sessionId (transports s)"
      by (simp add: only_removes_def)
    ultimately show "sessionId (transports s' ! t) = sessionId (transports s ! t)"
      by (rule nth_of_map_eq[rotated])
  qed
  have bh: "\<And>t. bound_handle s' t = bound_handle s t"
    by (rule bound_handle_cong) (use r in \<open>simp_all add: only_removes_def\<close>)
  have sub: "\<And>k u. map_of (sessions s') k = Some u \<Longrightarrow> map_of (sessions s) k = Some u"
  proof -
    fix k u assume a: "map_of (sessions s') k = Some u"
    from r have "map_of (sessions s') \<subseteq>\<^sub>m map_of (sessions s)" by (simp add: only_removes_def)
    with a show "map_of (sessions s) k = Some u" by (metis domI map_le_def)
  qed
  have m: "minted s' = minted s" and c: "clients s' = clients s"
    using r by (simp_all add: only_removes_def)
  from i have ro: "registry_ok s" by (simp add: consistent_def)
  have 1: "registry_ok s'"
    unfolding registry_ok_def
  proof (intro allI impI)
    fix k u
    assume "map_of (sessions s') k = Some u"
    then have "map_of (sessions s) k = Some u" by (rule sub)
    with ro have "u < length (transports s)" "sessionId (transports s ! u) = Some k"
      unfolding registry_ok_def by blast+
    then show "u < length (transports s') \<and> sessionId (transports s' ! u) = Some k"
      using l sid by simp
  qed
  from i have "ids_ok s" by (simp add: consistent_def)
  then have 2: "ids_ok s'" unfolding ids_ok_def using l sid m by simp
  from i have "wired s" by (simp add: consistent_def)
  then have 3: "wired s'" unfolding wired_def using l bh c by simp
  from 1 2 3 show ?thesis by (simp add: consistent_def)
qed

lemma only_removes_extends: "only_removes s s' \<Longrightarrow> extends s s'"
  by (simp add: only_removes_def extends_def)

lemma only_removes_transport_close: "only_removes s (transport_close t s)"
  by (simp add: only_removes_def transport_close_sessions)

lemma only_removes_delete: "only_removes s (s\<lparr>sessions := AList.delete k (sessions s)\<rparr>)"
  by (simp add: only_removes_def delete_map_le)

lemma only_removes_exit: "only_removes s (process_exit c s)"
  by (simp add: only_removes_def process_exit_def)

lemma only_removes_server_close: "only_removes s (server_close s)"
  by (simp add: only_removes_def server_close_def)

lemma only_removes_try_close: "only_removes s (try_close fails k s)"
  by (simp add: try_close_def only_removes_refl only_removes_transport_close split: member.splits)

lemma only_removes_shutdown_loop: "only_removes s (shutdown_loop fails ks s)"
proof (induction ks arbitrary: s)
  case Nil
  show ?case by (simp add: only_removes_refl)
next
  case (Cons k ks)
  let ?s1 = "try_close fails k s"
  let ?s2 = "?s1\<lparr>sessions := AList.delete k (sessions ?s1)\<rparr>"
  have "only_removes s ?s2"
    using only_removes_try_close only_removes_delete by (rule only_removes_trans)
  moreover have "only_removes ?s2 (shutdown_loop fails ks ?s2)" by (rule Cons.IH)
  ultimately have "only_removes s (shutdown_loop fails ks ?s2)" by (rule only_removes_trans)
  then show ?case by (simp add: Let_def)
qed

lemma only_removes_shutdown_resume: "only_removes s (shutdown_resume fails k s)"
proof -
  let ?s1 = "s\<lparr>sessions := AList.delete (fst k) (sessions s)\<rparr>"
  let ?s2 = "shutdown_loop fails (snd k) ?s1"
  have "only_removes s ?s1" by (rule only_removes_delete)
  also have "only_removes ?s1 ?s2" by (rule only_removes_shutdown_loop)
  also have "only_removes ?s2 (server_close ?s2)" by (rule only_removes_server_close)
  also have "only_removes (server_close ?s2) (process_exit 0 (server_close ?s2))"
    by (rule only_removes_exit)
  finally show ?thesis by (simp add: shutdown_resume_def)
qed

lemma only_removes_resume_all: "only_removes s (resume_all fails ks s)"
proof (induction ks arbitrary: s)
  case Nil
  show ?case by (simp add: only_removes_refl)
next
  case (Cons k ks)
  show ?case
    using only_removes_trans[OF only_removes_shutdown_resume Cons.IH]
    by (simp add: only_removes_refl)
qed

lemma only_removes_run_listeners: "only_removes s (run_listeners fails ls pending s)"
proof (induction ls arbitrary: s pending)
  case Nil
  show ?case by (simp add: only_removes_resume_all)
next
  case (Cons l ls)
  show ?case
  proof (cases l)
    case ExitZero
    then show ?thesis by (simp add: only_removes_refl only_removes_exit)
  next
    case Shutdown
    show ?thesis
    proof (cases "map fst (sessions s)")
      case Nil
      have "only_removes s (process_exit 0 (server_close s))"
        using only_removes_server_close only_removes_exit by (rule only_removes_trans)
      then show ?thesis using Shutdown Nil
        by (simp add: shutdown_start_def only_removes_refl)
    next
      case (Cons k ks)
      have "only_removes s (run_listeners fails ls (pending @ [(k, ks)]) (try_close fails k s))"
        using only_removes_try_close Cons.IH by (rule only_removes_trans)
      then show ?thesis using Shutdown Cons
        by (simp add: shutdown_start_def only_removes_refl)
    qed
  qed
qed

lemma only_removes_deliver_signal: "only_removes s (deliver_signal fails sg s)"
  by (simp add: deliver_signal_def only_removes_run_listeners)

section \<open>The error envelopes\<close>

lemma show_error_codes: "show_int (- 32000) = ''-32000''" "show_int (- 32001) = ''-32001''"
  by (simp_all add: show_int_def show_nat.simps digit_char_def)

lemma bad_request_envelope:
  \<open>sendJsonRpcError 400 ''Bad Request: No valid session ID provided'' =
   \<lparr>statusCode = 400, content_type = ''application/json'',
    payload = ''{"jsonrpc":"2.0","error":{"code":-32000,"message":"Bad Request: No valid session ID provided"},"id":null}''\<rparr>\<close>
  by (simp add: sendJsonRpcError_def show_error_codes quote_def escape_char_def)

lemma not_found_envelope:
  \<open>session_not_found =
   \<lparr>statusCode = 404, content_type = ''application/json'',
    payload = ''{"jsonrpc":"2.0","error":{"code":-32001,"message":"Session not found"},"id":null}''\<rparr>\<close>
  by (simp add: session_not_found_def show_error_codes quote_def escape_char_def)

lemma unauthorized_envelope:
  \<open>sendJsonRpcError 401 unauthorized_message =
   \<lparr>statusCode = 401, content_type = ''application/json'',
    payload = ''{"jsonrpc":"2.0","error":{"code":-32000,"message":"Unauthorized: provide a Resend API key via Authorization: Bearer <key>"},"id":null}''\<rparr>\<close>
  by (simp add: sendJsonRpcError_def unauthorized_message_def show_error_codes quote_def escape_char_def)

lemma unauthorized_names_header: "sublist ''Authorization: Bearer'' unauthorized_message"
  unfolding sublist_def unauthorized_message_def
  by (rule exI[of _ "''Unauthorized: provide a Resend API key via ''"], rule exI[of _ "'' <key>''"]) simp

lemma status_sendJsonRpcError [simp]: "statusCode (sendJsonRpcError n m) = n"
  by (simp add: sendJsonRpcError_def)

lemma status_session_not_found [simp]: "statusCode session_not_found = 404"
  by (simp add: session_not_found_def)

section \<open>The decision of the handler\<close>

lemma select_branch_falsy:
  "falsy (mcp_session_id req) \<Longrightarrow>
   select_branch isInit reg req = (if initialize_request isInit req then CreatePath else BadRequest)"
  by (simp add: select_branch_def initialize_request_def Let_def)

lemma create_path_header [simp]:
  "create_path opts (req\<lparr>mcp_session_id := x\<rparr>) ev s = create_path opts req ev s"
  by (simp add: create_path_def)

lemma initialize_request_header [simp]:
  "initialize_request isInit (req\<lparr>mcp_session_id := x\<rparr>) = initialize_request isInit req"
  by (simp add: initialize_request_def)

lemma create_path_status:
  "replied_status (fst (create_path opts req ev s)) = Some 401 \<or>
   replied_status (fst (create_path opts req ev s)) = None"
  by (simp add: create_path_def Let_def split_def)

lemma handle_request_falsy:
  "falsy (mcp_session_id req) \<Longrightarrow>
   handle_request isInit opts req ev s =
     (if initialize_request isInit req then create_path opts req ev s
      else (Replied (sendJsonRpcError 400 ''Bad Request: No valid session ID provided''), s))"
  by (simp add: handle_request_def select_branch_falsy)

lemma create_path_unauthorized:
  "extractBearerToken (authorization req) = None \<Longrightarrow>
   create_path opts req ev s = (Replied (sendJsonRpcError 401 unauthorized_message), s)"
  by (simp add: create_path_def)

lemma handle_request_not_found:
  "mcp_session_id req = Some sid \<Longrightarrow> sid \<noteq> [] \<Longrightarrow> map_of (sessions s) sid = None \<Longrightarrow>
   sid \<notin> set object_prototype_names \<Longrightarrow>
   handle_request isInit opts req ev s = (Replied session_not_found, s)"
  by (simp add: handle_request_def select_branch_def get_member_def)

text \<open>
  Claim C4. For a request that carries no session header, the create path is taken
  exactly when the request is an initialize request (a POST whose body is an initialize
  message); any other such request is answered with 400 and the state is left as it was,
  so no session is created. The create path itself never answers with 400.
\<close>

theorem no_session_header_decision:
  assumes "mcp_session_id req = None"
  shows "(select_branch isInit (sessions s) req = CreatePath \<longleftrightarrow> initialize_request isInit req) \<and>
         handle_request isInit opts req ev s =
           (if initialize_request isInit req then create_path opts req ev s
            else (Replied (sendJsonRpcError 400 ''Bad Request: No valid session ID provided''), s)) \<and>
         replied_status (fst (create_path opts req ev s)) \<noteq> Some 400 \<and>
         statusCode (sendJsonRpcError 400 ''Bad Request: No valid session ID provided'') = 400"
proof -
  from assms have f: "falsy (mcp_session_id req)" by simp
  have 1: "select_branch isInit (sessions s) req = CreatePath \<longleftrightarrow> initialize_request isInit req"
    by (simp add: select_branch_falsy[OF f])
  have 2: "replied_status (fst (create_path opts req ev s)) \<noteq> Some 400"
    using create_path_status[of opts req ev s] by auto
  from 1 2 handle_request_falsy[OF f] show ?thesis by simp
qed

theorem no_session_header_decision_witness:
  "handle_request (\<lambda>b. b) example_options (example_request ''POST'' None None False) Plain initial =
     (Replied (sendJsonRpcError 400 ''Bad Request: No valid session ID provided''), initial) \<and>
   handle_request (\<lambda>b. b) example_options (example_request ''GET'' None None True) Plain initial =
     (Replied (sendJsonRpcError 400 ''Bad Request: No valid session ID provided''), initial) \<and>
   select_branch (\<lambda>b. b) (sessions initial) (example_request ''POST'' None None True) = CreatePath"
  using no_session_header_decision[of "example_request ''POST'' None None False" "\<lambda>b. b" initial
      example_options Plain]
    no_session_header_decision[of "example_request ''GET'' None None True" "\<lambda>b. b" initial
      example_options Plain]
    no_session_header_decision[of "example_request ''POST'' None None True" "\<lambda>b. b" initial
      example_options Plain]
  by (simp add: example_request_def initialize_request_def)

text \<open>
  Claim C3. An initialize request on the create path whose \<open>Authorization\<close> header is
  absent or not of the form \<open>Bearer <token>\<close> with a token that is non-empty after
  trimming is answered with 401 and a message that names the header, and the state is
  left as it was: no client handle, transport or protocol server is constructed and the
  registry is unchanged.
\<close>

theorem unauthenticated_initialize_rejected:
  assumes "falsy (mcp_session_id req)" and "initialize_request isInit req"
    and "\<not> bearer_form (authorization req)"
  shows \<open>handle_request isInit opts req ev s = (Replied (sendJsonRpcError 401 unauthorized_message), s) \<and>
         sendJsonRpcError 401 unauthorized_message =
           \<lparr>statusCode = 401, content_type = ''application/json'',
            payload = ''{"jsonrpc":"2.0","error":{"code":-32000,"message":"Unauthorized: provide a Resend API key via Authorization: Bearer <key>"},"id":null}''\<rparr> \<and>
         sublist ''Authorization: Bearer'' unauthorized_message\<close>
proof -
  from assms(3) have "extractBearerToken (authorization req) = None"
    using extract_iff[of "authorization req"] by simp
  then have "create_path opts req ev s = (Replied (sendJsonRpcError 401 unauthorized_message), s)"
    by (rule create_path_unauthorized)
  with assms(1,2) have "handle_request isInit opts req ev s =
      (Replied (sendJsonRpcError 401 unauthorized_message), s)"
    by (simp add: handle_request_falsy)
  then show ?thesis using unauthorized_envelope unauthorized_names_header by simp
qed

theorem unauthenticated_initialize_rejected_witness:
  "falsy None \<and> initialize_request (\<lambda>b. b) (example_request ''POST'' None (Some ''Basic abc'') True) \<and>
   \<not> bearer_form (Some ''Basic abc'') \<and>
   handle_request (\<lambda>b. b) example_options (example_request ''POST'' None (Some ''Basic abc'') True)
     (Handshake 0) initial = (Replied (sendJsonRpcError 401 unauthorized_message), initial)"
proof -
  let ?R = "example_request ''POST'' None (Some ''Basic abc'') True"
  have 1: "falsy (mcp_session_id ?R)" by (simp add: example_request_def)
  have 2: "initialize_request (\<lambda>b. b) ?R" by (simp add: initialize_request_def example_request_def)
  have "extractBearerToken (Some ''Basic abc'') = None"
    by (simp add: extractBearerToken_def startsWith_def)
  then have b: "\<not> bearer_form (Some ''Basic abc'')" using extract_iff[of "Some ''Basic abc''"] by simp
  then have 3: "\<not> bearer_form (authorization ?R)" by (simp add: example_request_def)
  from unauthenticated_initialize_rejected[OF 1 2 3, of example_options "Handshake 0" initial] 2 b
  show ?thesis by simp
qed

text \<open>
  Claim C7, as amended. A request without a session header that is not an initialize
  request is answered with status 400 and the envelope with code -32000 and the message
  "Bad Request: No valid session ID provided". A request whose session header is not
  empty, is not a key of the registry and is not the name of a member the registry object
  inherits is answered with status 404 and the envelope with code -32001 and the message
  "Session not found", whatever the state, so also when the identifier named a session
  that has been closed. Neither request changes the state.
\<close>

theorem error_envelopes:
  \<open>(mcp_session_id req = None \<and> \<not> initialize_request isInit req \<longrightarrow>
      handle_request isInit opts req ev s =
        (Replied \<lparr>statusCode = 400, content_type = ''application/json'',
           payload = ''{"jsonrpc":"2.0","error":{"code":-32000,"message":"Bad Request: No valid session ID provided"},"id":null}''\<rparr>, s)) \<and>
    (mcp_session_id req = Some sid \<and> sid \<noteq> [] \<and> map_of (sessions s) sid = None \<and>
     sid \<notin> set object_prototype_names \<longrightarrow>
      handle_request isInit opts req ev s =
        (Replied \<lparr>statusCode = 404, content_type = ''application/json'',
           payload = ''{"jsonrpc":"2.0","error":{"code":-32001,"message":"Session not found"},"id":null}''\<rparr>, s))\<close>
proof (intro conjI impI)
  assume "mcp_session_id req = None \<and> \<not> initialize_request isInit req"
  then have "falsy (mcp_session_id req)" and "\<not> initialize_request isInit req" by simp_all
  then show \<open>handle_request isInit opts req ev s =
        (Replied \<lparr>statusCode = 400, content_type = ''application/json'',
           payload = ''{"jsonrpc":"2.0","error":{"code":-32000,"message":"Bad Request: No valid session ID provided"},"id":null}''\<rparr>, s)\<close>
    by (simp add: handle_request_falsy bad_request_envelope)
next
  assume "mcp_session_id req = Some sid \<and> sid \<noteq> [] \<and> map_of (sessions s) sid = None \<and>
     sid \<notin> set object_prototype_names"
  then have "handle_request isInit opts req ev s = (Replied session_not_found, s)"
    by (simp add: handle_request_not_found)
  then show \<open>handle_request isInit opts req ev s =
        (Replied \<lparr>statusCode = 404, content_type = ''application/json'',
           payload = ''{"jsonrpc":"2.0","error":{"code":-32001,"message":"Session not found"},"id":null}''\<rparr>, s)\<close>
    by (simp add: not_found_envelope)
qed

theorem error_envelopes_witness:
  "replied_status (fst (handle_request (\<lambda>b. b) example_options
      (example_request ''GET'' None None False) Plain initial)) = Some 400 \<and>
   replied_status (fst (handle_request (\<lambda>b. b) example_options
      (example_request ''GET'' (Some ''no-such-session'') None False) Plain initial)) = Some 404"
proof -
  have "replied_status (fst (handle_request (\<lambda>b. b) example_options
      (example_request ''GET'' None None False) Plain initial)) = Some 400"
    using error_envelopes[of "example_request ''GET'' None None False" "\<lambda>b. b" example_options
        Plain initial]
    by (simp add: example_request_def initialize_request_def)
  moreover have "replied_status (fst (handle_request (\<lambda>b. b) example_options
      (example_request ''GET'' (Some ''no-such-session'') None False) Plain initial)) = Some 404"
    using error_envelopes[of "example_request ''GET'' (Some ''no-such-session'') None False"
        "\<lambda>b. b" example_options Plain initial "''no-such-session''"]
    by (simp add: example_request_def initial_def object_prototype_names_def)
  ultimately show ?thesis by (rule conjI)
qed

text \<open>
  Claim C7 as stated fails: a request whose session header is present but empty names no
  registry entry, yet the answer is 400, not 404.
\<close>

theorem empty_header_not_404:
  "mcp_session_id (example_request ''GET'' (Some []) None False) = Some [] \<and>
   map_of (sessions initial) [] = None \<and>
   replied_status (fst (handle_request (\<lambda>b. b) example_options
      (example_request ''GET'' (Some []) None False) Plain initial)) = Some 400 \<and>
   replied_status (fst (handle_request (\<lambda>b. b) example_options
      (example_request ''GET'' (Some []) None False) Plain initial)) \<noteq> Some 404"
  by (simp add: example_request_def initial_def handle_request_falsy initialize_request_def)

section \<open>The create path and the handshake\<close>

lemma create_session_eq:
  "create_session k opts s =
     (length (transports s),
      s\<lparr>clients := clients s @ [k],
        transports := transports s @
          [\<lparr>sessionId = None, closed = False, connected_server = Some (length (servers s))\<rparr>],
        servers := servers s @ [\<lparr>resend = length (clients s), options = opts\<rparr>]\<rparr>)"
  by (simp add: create_session_def new_Resend_def new_transport_def createMcpServer_def
      connect_def Let_def)

lemma create_session_frame [simp]:
  "fst (create_session k opts s) = length (transports s)"
  "sessions (snd (create_session k opts s)) = sessions s"
  "minted (snd (create_session k opts s)) = minted s"
  "listening (snd (create_session k opts s)) = listening s"
  "listeners (snd (create_session k opts s)) = listeners s"
  "exit_code (snd (create_session k opts s)) = exit_code s"
  "stdio_transports (snd (create_session k opts s)) = stdio_transports s"
  "clients (snd (create_session k opts s)) = clients s @ [k]"
  "servers (snd (create_session k opts s)) =
     servers s @ [\<lparr>resend = length (clients s), options = opts\<rparr>]"
  "transports (snd (create_session k opts s)) = transports s @
     [\<lparr>sessionId = None, closed = False, connected_server = Some (length (servers s))\<rparr>]"
  by (simp_all add: create_session_eq)

lemma bound_handle_create_new:
  "bound_handle (snd (create_session k opts s)) (length (transports s)) = Some (length (clients s))"
  by (simp add: bound_handle_def)

lemma bound_handle_create_old:
  assumes "bound_handle s t = Some c"
  shows "bound_handle (snd (create_session k opts s)) t = Some c"
proof -
  from assms have t: "t < length (transports s)"
    by (simp add: bound_handle_def split: if_splits)
  with assms obtain v where v: "connected_server (transports s ! t) = Some v"
    "v < length (servers s)" "resend (servers s ! v) = c"
    by (auto simp: bound_handle_def split: option.splits if_splits)
  with t show ?thesis by (simp add: bound_handle_def nth_append)
qed

lemma bound_credential_create_new:
  "bound_credential (snd (create_session k opts s)) (length (transports s)) = Some k"
  by (simp add: bound_credential_def bound_handle_create_new)

lemma extends_refl: "extends s s"
  by (simp add: extends_def)



lemma extends_bound_credential:
  assumes e: "extends s s'" and b: "bound_credential s t = Some k"
  shows "bound_credential s' t = Some k"
proof -
  from b obtain c where c: "bound_handle s t = Some c" "c < length (clients s)" "clients s ! c = k"
    by (auto simp: bound_credential_def split: option.splits if_splits)
  from c(1) have t: "t < length (transports s)"
    by (simp add: bound_handle_def split: if_splits)
  with c(1) obtain v where v: "connected_server (transports s ! t) = Some v"
    "v < length (servers s)" "resend (servers s ! v) = c"
    by (auto simp: bound_handle_def split: option.splits if_splits)
  from e obtain ts vs cs where
    ts: "map connected_server (transports s') = map connected_server (transports s) @ ts" and
    vs: "servers s' = servers s @ vs" and cs: "clients s' = clients s @ cs"
    unfolding extends_def prefix_def by blast
  from ts have lt: "length (transports s) \<le> length (transports s')"
    by (metis length_map length_append le_add1)
  from ts t have "map connected_server (transports s') ! t = map connected_server (transports s) ! t"
    by (simp add: nth_append)
  with t lt have cs': "connected_server (transports s' ! t) = Some v" using v(1) by simp
  from vs v have sv: "v < length (servers s')" "resend (servers s' ! v) = c"
    by (simp_all add: nth_append)
  from cs c have cc: "c < length (clients s')" "clients s' ! c = k"
    by (simp_all add: nth_append)
  from t lt cs' sv have "bound_handle s' t = Some c" by (simp add: bound_handle_def)
  with cc show ?thesis by (simp add: bound_credential_def)
qed

section \<open>The invariant along every step\<close>

lemma inv_initial_like:
  "sessions s = [] \<Longrightarrow> transports s = [] \<Longrightarrow> minted s = [] \<Longrightarrow> consistent s"
  by (simp add: consistent_def registry_ok_def ids_ok_def wired_def)

lemma inv_create:
  assumes i: "consistent s"
  shows "consistent (snd (create_session k opts s))"
proof -
  let ?s' = "snd (create_session k opts s)"
  let ?n = "length (transports s)"
  from i have ro: "registry_ok s" and io: "ids_ok s" and w: "wired s" by (simp_all add: consistent_def)
  have 1: "registry_ok ?s'"
    unfolding registry_ok_def
  proof (intro allI impI)
    fix sid t assume "map_of (sessions ?s') sid = Some t"
    then have "map_of (sessions s) sid = Some t" by simp
    with ro have "t < ?n" "sessionId (transports s ! t) = Some sid"
      unfolding registry_ok_def by blast+
    then show "t < length (transports ?s') \<and> sessionId (transports ?s' ! t) = Some sid"
      by (simp add: nth_append)
  qed
  have 2: "ids_ok ?s'"
    unfolding ids_ok_def
  proof (intro conjI allI impI)
    fix t sid
    assume a: "t < length (transports ?s')" "sessionId (transports ?s' ! t) = Some sid"
    then have "t < ?n" by (cases "t = ?n") auto
    with a have "sessionId (transports s ! t) = Some sid" by (simp add: nth_append)
    with io \<open>t < ?n\<close> show "sid \<in> set (minted ?s')" unfolding ids_ok_def by simp
  next
    show "\<forall>sid\<in>set (minted ?s'). length sid = 36" using io unfolding ids_ok_def by simp
  qed
  have old: "\<And>t. t < ?n \<Longrightarrow> \<exists>c. bound_handle s t = Some c \<and> c < length (clients s) \<and>
      bound_handle ?s' t = Some c"
  proof -
    fix t assume "t < ?n"
    with w obtain c where c: "bound_handle s t = Some c" "c < length (clients s)"
      unfolding wired_def by blast
    from c(1) have "bound_handle ?s' t = Some c" by (rule bound_handle_create_old)
    with c show "\<exists>c. bound_handle s t = Some c \<and> c < length (clients s) \<and>
      bound_handle ?s' t = Some c" by blast
  qed
  have new: "bound_handle ?s' ?n = Some (length (clients s))" by (rule bound_handle_create_new)
  have 3: "wired ?s'"
    unfolding wired_def
  proof (intro conjI allI impI)
    fix t assume "t < length (transports ?s')"
    then have "t < ?n \<or> t = ?n" by auto
    then show "\<exists>c. bound_handle ?s' t = Some c \<and> c < length (clients ?s')"
    proof
      assume "t < ?n"
      from old[OF this] show ?thesis by auto
    next
      assume "t = ?n"
      with new show ?thesis by simp
    qed
  next
    fix t t'
    assume "t < length (transports ?s')" "t' < length (transports ?s')"
      and e: "bound_handle ?s' t = bound_handle ?s' t'"
    then have c: "t < ?n \<or> t = ?n" "t' < ?n \<or> t' = ?n" by auto
    show "t = t'"
    proof (cases "t < ?n")
      case True
      from old[OF True] obtain c where c1: "bound_handle s t = Some c" "c < length (clients s)"
        "bound_handle ?s' t = Some c" by blast
      show ?thesis
      proof (cases "t' < ?n")
        case True
        from old[OF True] obtain c' where c2: "bound_handle s t' = Some c'"
          "bound_handle ?s' t' = Some c'" by blast
        with c1 e have "bound_handle s t = bound_handle s t'" by simp
        with w \<open>t < ?n\<close> True show ?thesis unfolding wired_def by blast
      next
        case False
        with c(2) have "t' = ?n" by simp
        with new e c1 show ?thesis by simp
      qed
    next
      case False
      with c(1) have tn: "t = ?n" by simp
      show ?thesis
      proof (cases "t' < ?n")
        case True
        from old[OF True] obtain c' where c2: "c' < length (clients s)"
          "bound_handle ?s' t' = Some c'" by blast
        with new e tn show ?thesis by simp
      next
        case False
        with c(2) tn show ?thesis by simp
      qed
    qed
  qed
  from 1 2 3 show ?thesis by (simp add: consistent_def)
qed

text \<open>The state after a completed handshake on a transport without identifier.\<close>

lemma handshake_eq:
  "sessionId (transports s ! t) = None \<Longrightarrow>
   transport_handleRequest t (Handshake r) s =
     s\<lparr>transports := (transports s)[t := (transports s ! t)\<lparr>sessionId := Some (randomUUID r)\<rparr>],
       minted := minted s @ [randomUUID r],
       sessions := AList.update (randomUUID r) t (sessions s)\<rparr>"
  by (simp add: transport_handleRequest_def onsessioninitialized_def sessionIdGenerator_def Let_def)

lemma handshake_refused:
  "sessionId (transports s ! t) \<noteq> None \<Longrightarrow> transport_handleRequest t (Handshake r) s = s"
  by (auto simp: transport_handleRequest_def)

lemma inv_handshake:
  assumes i: "consistent s" and t: "t < length (transports s)" and n: "sessionId (transports s ! t) = None"
  shows "consistent (transport_handleRequest t (Handshake r) s)"
proof -
  let ?u = "randomUUID r"
  let ?s' = "transport_handleRequest t (Handshake r) s"
  from i have ro: "registry_ok s" and io: "ids_ok s" and w: "wired s" by (simp_all add: consistent_def)
  have tr: "transports ?s' = (transports s)[t := (transports s ! t)\<lparr>sessionId := Some ?u\<rparr>]"
    and mi: "minted ?s' = minted s @ [?u]"
    and se: "sessions ?s' = AList.update ?u t (sessions s)"
    and sv: "servers ?s' = servers s" and cl: "clients ?s' = clients s"
    by (simp_all add: handshake_eq[OF n])
  have sid: "\<And>u. u < length (transports s) \<Longrightarrow>
      sessionId (transports ?s' ! u) = (if u = t then Some ?u else sessionId (transports s ! u))"
    by (simp add: tr nth_list_update)
  have len: "length (transports ?s') = length (transports s)" by (simp add: tr)
  have 1: "registry_ok ?s'"
    unfolding registry_ok_def
  proof (intro allI impI)
    fix k u assume a: "map_of (sessions ?s') k = Some u"
    show "u < length (transports ?s') \<and> sessionId (transports ?s' ! u) = Some k"
    proof (cases "k = ?u")
      case True
      with a have "u = t" by (simp add: se update_conv')
      with True t show ?thesis by (simp add: len sid)
    next
      case False
      with a have "map_of (sessions s) k = Some u" by (simp add: se update_conv')
      with ro have b: "u < length (transports s)" "sessionId (transports s ! u) = Some k"
        unfolding registry_ok_def by blast+
      with n have "u \<noteq> t" by auto
      with b show ?thesis by (simp add: len sid)
    qed
  qed
  have 2: "ids_ok ?s'"
    using io unfolding ids_ok_def by (auto simp: len sid mi randomUUID_length)
  have "map connected_server (transports ?s') = map connected_server (transports s)"
    by (simp add: tr map_update_same)
  then have bh: "\<And>u. bound_handle ?s' u = bound_handle s u"
    using sv by (rule bound_handle_cong)
  have 3: "wired ?s'" using w unfolding wired_def by (simp add: bh len cl)
  from 1 2 3 show ?thesis by (simp add: consistent_def)
qed

lemma inv_transport_handleRequest:
  assumes "consistent s" and "t < length (transports s)"
  shows "consistent (transport_handleRequest t ev s)"
proof (cases ev)
  case (Handshake r)
  show ?thesis
  proof (cases "sessionId (transports s ! t) = None")
    case True
    with assms Handshake show ?thesis by (simp add: inv_handshake)
  next
    case False
    with assms Handshake show ?thesis by (simp add: handshake_refused)
  qed
next
  case Plain
  with assms show ?thesis by (simp add: transport_handleRequest_def)
next
  case Terminate
  with assms only_removes_inv[OF only_removes_transport_close] show ?thesis
    by (simp add: transport_handleRequest_def)
qed

lemma registered_id_shape:
  assumes "consistent s" and "map_of (sessions s) sid = Some t"
  shows "t < length (transports s)" and "sessionId (transports s ! t) = Some sid"
    and "length sid = 36" and "sid \<noteq> []"
proof -
  from assms show t: "t < length (transports s)" and i: "sessionId (transports s ! t) = Some sid"
    unfolding consistent_def registry_ok_def by blast+
  with assms(1) show "length sid = 36" unfolding consistent_def ids_ok_def by blast
  then show "sid \<noteq> []" by auto
qed


lemma extends_transport_handleRequest: "extends s (transport_handleRequest t ev s)"
proof (cases ev)
  case (Handshake r)
  show ?thesis
  proof (cases "sessionId (transports s ! t) = None")
    case True
    then show ?thesis using Handshake
      by (simp add: handshake_eq extends_def map_update_same)
  next
    case False
    then show ?thesis using Handshake by (simp add: handshake_refused extends_refl)
  qed
next
  case Plain
  then show ?thesis by (simp add: transport_handleRequest_def extends_refl)
next
  case Terminate
  then show ?thesis
    by (simp add: transport_handleRequest_def only_removes_extends only_removes_transport_close)
qed

lemma create_path_cases:
  "create_path opts req ev s =
     (case extractBearerToken (authorization req) of
        None \<Rightarrow> (Replied (sendJsonRpcError 401 unauthorized_message), s)
      | Some k \<Rightarrow> (Handled (length (transports s)),
                   transport_handleRequest (length (transports s)) ev
                     (snd (create_session k opts s))))"
  by (auto simp: create_path_def Let_def split_def dest: extract_nonempty split: option.splits)

lemma inv_create_path: "consistent s \<Longrightarrow> consistent (snd (create_path opts req ev s))"
  by (simp add: create_path_cases inv_create inv_transport_handleRequest split: option.splits)


lemma handle_request_cases:
  "snd (handle_request isInit opts req ev s) = s \<or>
   snd (handle_request isInit opts req ev s) = snd (create_path opts req ev s) \<or>
   (\<exists>sid t. mcp_session_id req = Some sid \<and> map_of (sessions s) sid = Some t \<and>
      snd (handle_request isInit opts req ev s) = transport_handleRequest t ev s)"
proof (cases "select_branch isInit (sessions s) req")
  case Continuation
  then obtain sid where sid: "mcp_session_id req = Some sid"
    by (cases "mcp_session_id req") (auto simp: select_branch_def Let_def split: if_splits)
  show ?thesis
  proof (cases "map_of (sessions s) sid")
    case None
    with Continuation sid show ?thesis
      by (simp add: handle_request_def get_member_def)
  next
    case (Some t)
    with Continuation sid show ?thesis
      by (simp add: handle_request_def get_member_def)
  qed
qed (simp_all add: handle_request_def)

lemma inv_handle_request:
  assumes "consistent s"
  shows "consistent (snd (handle_request isInit opts req ev s))"
proof -
  from handle_request_cases[of isInit opts req ev s] consider
    "snd (handle_request isInit opts req ev s) = s" |
    "snd (handle_request isInit opts req ev s) = snd (create_path opts req ev s)" |
    sid t where "map_of (sessions s) sid = Some t"
      "snd (handle_request isInit opts req ev s) = transport_handleRequest t ev s"
    by blast
  then show ?thesis
  proof cases
    case 1
    with assms show ?thesis by simp
  next
    case 2
    with assms show ?thesis by (simp add: inv_create_path)
  next
    case 3
    from assms 3(1) have "t < length (transports s)" by (rule registered_id_shape)
    with assms 3(2) show ?thesis by (simp add: inv_transport_handleRequest)
  qed
qed


lemma inv_step: "consistent s \<Longrightarrow> consistent (step isInit opts fails e s)"
  by (cases e)
     (auto simp: step_def inv_handle_request
        intro: only_removes_inv[OF only_removes_transport_close]
               only_removes_inv[OF only_removes_deliver_signal])


lemma inv_run: "consistent s \<Longrightarrow> consistent (run isInit opts fails es s)"
  by (induction es arbitrary: s) (simp_all add: inv_step)


lemma inv_main: "consistent (main cfg)"
  by (rule inv_initial_like)
     (simp_all add: main_def initial_def runHttp_def runStdio_def new_Resend_def
        createMcpServer_def Let_def)

section \<open>The example runs\<close>

lemma uuid_0: "randomUUID 0 = ''00000000-0000-4000-8000-000000000000''"
  by (simp add: randomUUID_def hex_run_def uuid_nibble_def nibble_def hex_digit_def upt_groups)

lemma uuid_1: "randomUUID 1 = ''00000000-0000-4000-8000-000000000001''"
  by (simp add: randomUUID_def hex_run_def uuid_nibble_def nibble_def hex_digit_def upt_groups)

lemma uuid_0_1: "randomUUID 0 \<noteq> randomUUID 1" "randomUUID (Suc 0) \<noteq> randomUUID 0"
  using uuid_0 uuid_1 by simp_all

lemma bearer_tokens:
  "extractBearerToken (Some ''Bearer re_A'') = Some ''re_A''"
  "extractBearerToken (Some ''Bearer re_B'') = Some ''re_B''"
  by (simp_all add: extractBearerToken_def startsWith_def trim_def isWhiteSpace_def)

lemma main_http:
  "main http_config =
     \<lparr>sessions = [], transports = [], stdio_transports = [], servers = [], clients = [],
      minted = [], listening = True,
      listeners = [(SIGINT, ExitZero), (SIGTERM, ExitZero), (SIGINT, Shutdown), (SIGTERM, Shutdown)],
      exit_code = None\<rparr>"
  by (simp add: main_def http_config_def initial_def runHttp_def)

lemma step_bearer_request:
  "exit_code s = None \<Longrightarrow> listening s \<Longrightarrow> extractBearerToken (Some (''Bearer '' @ k)) = Some k \<Longrightarrow>
   step (\<lambda>b. b) opts fails (Request (bearer_request k) (Handshake r)) s =
     s\<lparr>clients := clients s @ [k],
       transports := transports s @
         [\<lparr>sessionId = Some (randomUUID r), closed = False,
           connected_server = Some (length (servers s))\<rparr>],
       servers := servers s @ [\<lparr>resend = length (clients s), options = opts\<rparr>],
       minted := minted s @ [randomUUID r],
       sessions := AList.update (randomUUID r) (length (transports s)) (sessions s)\<rparr>"
  by (simp add: step_def handle_request_falsy bearer_request_def example_request_def
      initialize_request_def create_path_cases handshake_eq create_session_eq)

lemma one_session_eq:
  "one_session =
     \<lparr>sessions = [(randomUUID 0, 0)],
      transports = [\<lparr>sessionId = Some (randomUUID 0), closed = False, connected_server = Some 0\<rparr>],
      stdio_transports = [],
      servers = [\<lparr>resend = 0, options = example_options\<rparr>],
      clients = [''re_A''], minted = [randomUUID 0], listening = True,
      listeners = [(SIGINT, ExitZero), (SIGTERM, ExitZero), (SIGINT, Shutdown), (SIGTERM, Shutdown)],
      exit_code = None\<rparr>"
  using bearer_tokens by (simp add: one_session_def main_http step_bearer_request)


section \<open>Credential isolation\<close>

lemma wired_credential:
  assumes "consistent s" and "t < length (transports s)"
  shows "\<exists>k. bound_credential s t = Some k"
proof -
  from assms obtain c where "bound_handle s t = Some c" "c < length (clients s)"
    unfolding consistent_def wired_def by blast
  then show ?thesis by (simp add: bound_credential_def)
qed

lemma created_session_bound:
  assumes f: "falsy (mcp_session_id req)" and i: "initialize_request isInit req"
    and k: "extractBearerToken (authorization req) = Some k"
  shows "handle_request isInit opts req (Handshake r) s =
           (Handled (length (transports s)),
            transport_handleRequest (length (transports s)) (Handshake r)
              (snd (create_session k opts s)))"
    and "map_of (sessions (snd (handle_request isInit opts req (Handshake r) s))) (randomUUID r) =
           Some (length (transports s))"
    and "bound_credential (snd (handle_request isInit opts req (Handshake r) s))
           (length (transports s)) = Some k"
    and "sessionId (transports (snd (handle_request isInit opts req (Handshake r) s)) !
           length (transports s)) = Some (randomUUID r)"
    and "minted (snd (handle_request isInit opts req (Handshake r) s)) = minted s @ [randomUUID r]"
proof -
  let ?n = "length (transports s)"
  let ?s1 = "snd (create_session k opts s)"
  show h: "handle_request isInit opts req (Handshake r) s =
      (Handled ?n, transport_handleRequest ?n (Handshake r) ?s1)"
    using f i k by (simp add: handle_request_falsy create_path_cases)
  have n: "sessionId (transports ?s1 ! ?n) = None" by simp
  show "map_of (sessions (snd (handle_request isInit opts req (Handshake r) s))) (randomUUID r) =
      Some ?n"
    by (simp add: h handshake_eq[OF n] update_conv')
  have "bound_credential ?s1 ?n = Some k" by (rule bound_credential_create_new)
  with extends_transport_handleRequest[of ?s1 ?n "Handshake r"]
  show "bound_credential (snd (handle_request isInit opts req (Handshake r) s)) ?n = Some k"
    unfolding h by (simp add: extends_bound_credential)
  show "sessionId (transports (snd (handle_request isInit opts req (Handshake r) s)) ! ?n) =
      Some (randomUUID r)"
    by (simp add: h handshake_eq[OF n])
  show "minted (snd (handle_request isInit opts req (Handshake r) s)) = minted s @ [randomUUID r]"
    by (simp add: h handshake_eq[OF n])
qed

section \<open>When the registry grows\<close>

lemma select_branch_create:
  "select_branch isInit reg req = CreatePath \<Longrightarrow>
   falsy (mcp_session_id req) \<and> initialize_request isInit req"
  by (auto simp: select_branch_def initialize_request_def Let_def split: if_splits)

lemma close_unregistered:
  "t < length (transports s) \<Longrightarrow> sessionId (transports s ! t) = None \<Longrightarrow>
   sessions (transport_close t s) = sessions s"
  by (simp add: transport_close_def onclose_def)

lemma create_path_sessions:
  "sessions (snd (create_path opts req ev s)) =
     (case extractBearerToken (authorization req) of
        None \<Rightarrow> sessions s
      | Some k \<Rightarrow>
          (case ev of
             Handshake r \<Rightarrow> AList.update (randomUUID r) (length (transports s)) (sessions s)
           | _ \<Rightarrow> sessions s))"
proof (cases "extractBearerToken (authorization req)")
  case None
  then show ?thesis by (simp add: create_path_cases)
next
  case (Some k)
  let ?s1 = "snd (create_session k opts s)"
  let ?n = "length (transports s)"
  have n: "sessionId (transports ?s1 ! ?n) = None" and l: "?n < length (transports ?s1)"
    by simp_all
  show ?thesis
  proof (cases ev)
    case (Handshake r)
    with Some show ?thesis by (simp add: create_path_cases handshake_eq[OF n])
  next
    case Plain
    with Some show ?thesis by (simp add: create_path_cases transport_handleRequest_def)
  next
    case Terminate
    with Some close_unregistered[OF l n] show ?thesis
      by (simp add: create_path_cases transport_handleRequest_def)
  qed
qed

lemma continuation_sessions:
  assumes "consistent s" and "map_of (sessions s) sid = Some t"
  shows "map_of (sessions (transport_handleRequest t ev s)) \<subseteq>\<^sub>m map_of (sessions s)"
proof (cases ev)
  case (Handshake r)
  from assms have "sessionId (transports s ! t) = Some sid" by (rule registered_id_shape)
  with Handshake show ?thesis by (simp add: handshake_refused)
next
  case Plain
  then show ?thesis by (simp add: transport_handleRequest_def)
next
  case Terminate
  then show ?thesis by (simp add: transport_handleRequest_def transport_close_sessions)
qed

lemma handle_request_adds:
  assumes c: "consistent s"
    and a: "map_of (sessions (snd (handle_request isInit opts req ev s))) sid = Some t"
    and n: "map_of (sessions s) sid \<noteq> Some t"
  shows "select_branch isInit (sessions s) req = CreatePath \<and>
         (\<exists>r. ev = Handshake r \<and> sid = randomUUID r) \<and> t = length (transports s) \<and>
         (\<exists>k. extractBearerToken (authorization req) = Some k \<and>
              bound_credential (snd (handle_request isInit opts req ev s)) t = Some k)"
proof (cases "select_branch isInit (sessions s) req")
  case Continuation
  then obtain sid0 where sid0: "mcp_session_id req = Some sid0"
    by (cases "mcp_session_id req") (auto simp: select_branch_def Let_def split: if_splits)
  show ?thesis
  proof (cases "map_of (sessions s) sid0")
    case None
    with Continuation sid0 have "snd (handle_request isInit opts req ev s) = s"
      by (simp add: handle_request_def get_member_def)
    with a n show ?thesis by simp
  next
    case (Some t0)
    with Continuation sid0 have "snd (handle_request isInit opts req ev s) = transport_handleRequest t0 ev s"
      by (simp add: handle_request_def get_member_def)
    with a have "map_of (sessions (transport_handleRequest t0 ev s)) sid = Some t" by simp
    with continuation_sessions[OF c Some, of ev] have "map_of (sessions s) sid = Some t"
      by (metis domI map_le_def)
    with n show ?thesis by simp
  qed
next
  case CreatePath
  then have h: "handle_request isInit opts req ev s = create_path opts req ev s"
    by (simp add: handle_request_def)
  from CreatePath have f: "falsy (mcp_session_id req)" and i: "initialize_request isInit req"
    by (auto dest: select_branch_create)
  from a have a': "map_of (sessions (snd (create_path opts req ev s))) sid = Some t"
    by (simp add: h)
  show ?thesis
  proof (cases "extractBearerToken (authorization req)")
    case None
    with a' n show ?thesis by (simp add: create_path_sessions)
  next
    case (Some k)
    show ?thesis
    proof (cases ev)
      case (Handshake r)
      from a' Some Handshake
      have "((map_of (sessions s))(randomUUID r \<mapsto> length (transports s))) sid = Some t"
        by (simp add: create_path_sessions update_conv')
      with n have e: "sid = randomUUID r" "t = length (transports s)"
        by (auto split: if_splits)
      from created_session_bound(3)[OF f i Some, of opts r s] Handshake e
      have "bound_credential (snd (handle_request isInit opts req ev s)) t = Some k" by simp
      with CreatePath Handshake e Some show ?thesis by simp
    next
      case Plain
      with a' n Some show ?thesis by (simp add: create_path_sessions)
    next
      case Terminate
      with a' n Some show ?thesis by (simp add: create_path_sessions)
    qed
  qed
next
  case NotFound
  then have "snd (handle_request isInit opts req ev s) = s" by (simp add: handle_request_def)
  with a n show ?thesis by simp
next
  case BadRequest
  then have "snd (handle_request isInit opts req ev s) = s" by (simp add: handle_request_def)
  with a n show ?thesis by simp
qed

text \<open>
  Claim C5. In every state the program can reach: constructing the client handle, the
  transport and the protocol server of a new session does not write the registry; an
  entry that a request adds to the registry comes from the create path, under the
  identifier minted when the handshake completes, and names the new transport, which is
  then bound to the credential of the request; a create path whose handshake does not
  complete, or whose credential is missing, leaves the registry as it was; and every
  entry of the registry names a transport that holds the entry's key and is bound to a
  credential, so no lookup finds a partially constructed session.
\<close>

theorem registered_only_after_handshake:
  assumes "s = run isInit opts fails es (main cfg)"
  shows "sessions (snd (create_session k opts s)) = sessions s \<and>
         (\<forall>sid t. map_of (sessions (snd (handle_request isInit opts req ev s))) sid = Some t \<and>
                   map_of (sessions s) sid \<noteq> Some t \<longrightarrow>
            select_branch isInit (sessions s) req = CreatePath \<and>
            (\<exists>r. ev = Handshake r \<and> sid = randomUUID r) \<and> t = length (transports s) \<and>
            (\<exists>k. extractBearerToken (authorization req) = Some k \<and>
                 bound_credential (snd (handle_request isInit opts req ev s)) t = Some k)) \<and>
         (select_branch isInit (sessions s) req = CreatePath \<and>
            (ev = Plain \<or> ev = Terminate \<or> extractBearerToken (authorization req) = None) \<longrightarrow>
            sessions (snd (handle_request isInit opts req ev s)) = sessions s) \<and>
         (\<forall>sid t. map_of (sessions s) sid = Some t \<longrightarrow>
            sessionId (transports s ! t) = Some sid \<and> (\<exists>k. bound_credential s t = Some k))"
proof -
  have c: "consistent s" unfolding assms(1) by (rule inv_run) (rule inv_main)
  have 1: "sessions (snd (create_session k opts s)) = sessions s" by simp
  have 2: "\<forall>sid t. map_of (sessions (snd (handle_request isInit opts req ev s))) sid = Some t \<and>
                   map_of (sessions s) sid \<noteq> Some t \<longrightarrow>
            select_branch isInit (sessions s) req = CreatePath \<and>
            (\<exists>r. ev = Handshake r \<and> sid = randomUUID r) \<and> t = length (transports s) \<and>
            (\<exists>k. extractBearerToken (authorization req) = Some k \<and>
                 bound_credential (snd (handle_request isInit opts req ev s)) t = Some k)"
    using handle_request_adds[OF c] by blast
  have 3: "select_branch isInit (sessions s) req = CreatePath \<and>
            (ev = Plain \<or> ev = Terminate \<or> extractBearerToken (authorization req) = None) \<longrightarrow>
            sessions (snd (handle_request isInit opts req ev s)) = sessions s"
    by (auto simp: handle_request_def create_path_sessions split: option.splits)
  have 4: "\<forall>sid t. map_of (sessions s) sid = Some t \<longrightarrow>
            sessionId (transports s ! t) = Some sid \<and> (\<exists>k. bound_credential s t = Some k)"
    using c by (auto dest: registered_id_shape intro: wired_credential)
  from 1 2 3 4 show ?thesis by blast
qed

theorem registered_only_after_handshake_witness:
  "sessions (snd (create_session ''re_A'' example_options (main http_config))) = [] \<and>
   sessions (snd (handle_request (\<lambda>b. b) example_options (bearer_request ''re_A'') Plain
      (main http_config))) = [] \<and>
   map_of (sessions one_session) (randomUUID 0) = Some 0 \<and>
   sessionId (transports one_session ! 0) = Some (randomUUID 0) \<and>
   bound_credential one_session 0 = Some ''re_A''"
proof -
  have m: "main http_config = run (\<lambda>b. b) example_options (\<lambda>t. False) [] (main http_config)"
    by simp
  have o: "one_session = run (\<lambda>b. b) example_options (\<lambda>t. False)
      [Request (bearer_request ''re_A'') (Handshake 0)] (main http_config)"
    by (simp add: one_session_def)
  note t0 = registered_only_after_handshake[OF m, of "''re_A''" "bearer_request ''re_A''" Plain]
  note t1 = registered_only_after_handshake[OF o, of "''re_A''" "bearer_request ''re_A''" Plain]
  have e: "sessions (main http_config) = []" by (simp add: main_http)
  have b: "select_branch (\<lambda>b. b) (sessions (main http_config)) (bearer_request ''re_A'') = CreatePath"
    by (simp add: select_branch_falsy bearer_request_def example_request_def initialize_request_def)
  from t0 e have 1: "sessions (snd (create_session ''re_A'' example_options (main http_config))) = []"
    by simp
  from t0 b e have 2: "sessions (snd (handle_request (\<lambda>b. b) example_options
      (bearer_request ''re_A'') Plain (main http_config))) = []"
    by simp
  have 3: "map_of (sessions one_session) (randomUUID 0) = Some 0" by (simp add: one_session_eq)
  have k: "bound_credential one_session 0 = Some ''re_A''"
    by (simp add: one_session_eq bound_credential_def bound_handle_def)
  from t1 3 have 4: "sessionId (transports one_session ! 0) = Some (randomUUID 0)" by blast
  from 1 2 3 4 k show ?thesis by blast
qed

section \<open>Closing a session\<close>

lemma close_registered:
  assumes t: "t < length (transports s)" and sid: "sessionId (transports s ! t) = Some sid"
    and len: "length sid = 36"
  shows "transport_close t s =
     s\<lparr>transports := (transports s)[t := (transports s ! t)\<lparr>closed := True\<rparr>],
       sessions := AList.delete sid (sessions s)\<rparr>"
proof (cases "map_of (sessions s) sid")
  case None
  then have d: "AList.delete sid (sessions s) = sessions s"
    by (simp add: delete_id map_of_eq_None_iff)
  from len have "sid \<notin> set object_prototype_names" by (rule len36_not_inherited)
  with None t sid show ?thesis
    by (simp add: transport_close_def onclose_def get_member_def d)
next
  case (Some u)
  from len have "sid \<noteq> []" by auto
  with Some t sid show ?thesis
    by (simp add: transport_close_def onclose_def get_member_def)
qed

lemma close_twice:
  assumes t: "t < length (transports s)" and sid: "sessionId (transports s ! t) = Some sid"
    and len: "length sid = 36"
  shows "transport_close t (transport_close t s) = transport_close t s"
proof -
  let ?s' = "transport_close t s"
  have e: "?s' = s\<lparr>transports := (transports s)[t := (transports s ! t)\<lparr>closed := True\<rparr>],
       sessions := AList.delete sid (sessions s)\<rparr>"
    using assms by (rule close_registered)
  have t': "t < length (transports ?s')" using t by simp
  have sid': "sessionId (transports ?s' ! t) = Some sid" using t sid by (simp add: e)
  have "transport_close t ?s' =
     ?s'\<lparr>transports := (transports ?s')[t := (transports ?s' ! t)\<lparr>closed := True\<rparr>],
        sessions := AList.delete sid (sessions ?s')\<rparr>"
    using t' sid' len by (rule close_registered)
  also have "\<dots> = ?s'" using t by (simp add: e AList.delete_idem)
  finally show ?thesis .
qed

lemma onclose_after_close:
  assumes t: "t < length (transports s)" and sid: "sessionId (transports s ! t) = Some sid"
    and len: "length sid = 36"
  shows "onclose t (transport_close t s) = transport_close t s"
proof -
  from len have "sid \<notin> set object_prototype_names" by (rule len36_not_inherited)
  then show ?thesis using t sid
    by (simp add: close_registered[OF assms] onclose_def get_member_def delete_conv')
qed

text \<open>
  Claim C6. In every state the program can reach, when the channel of a transport that
  holds a session identifier closes, whatever the cause (the client ends the session,
  the channel is closed, or shutdown closes it), that identifier is no longer a key of
  the registry; a request that carries it afterwards is answered with 404 and changes
  nothing; and closing the transport again, calling its close callback again or
  deleting the identifier from the registry again leaves the state as it is.
\<close>

theorem close_removes_session:
  assumes "s = run isInit opts fails es (main cfg)"
    and "t < length (transports s)" and "sessionId (transports s ! t) = Some sid"
    and "mcp_session_id req = Some sid"
  shows "transport_handleRequest t Terminate s = transport_close t s \<and>
         (exit_code s = None \<longrightarrow> step isInit opts fails (ChannelClosed t) s = transport_close t s) \<and>
         map_of (sessions (transport_close t s)) sid = None \<and>
         handle_request isInit opts req ev (transport_close t s) =
           (Replied session_not_found, transport_close t s) \<and>
         statusCode session_not_found = 404 \<and>
         transport_close t (transport_close t s) = transport_close t s \<and>
         onclose t (transport_close t s) = transport_close t s \<and>
         AList.delete sid (sessions (transport_close t s)) = sessions (transport_close t s)"
proof -
  have c: "consistent s" unfolding assms(1) by (rule inv_run) (rule inv_main)
  from c assms(2,3) have len: "length sid = 36"
    unfolding consistent_def ids_ok_def by blast
  note e = close_registered[OF assms(2,3) len]
  have 1: "transport_handleRequest t Terminate s = transport_close t s"
    by (simp add: transport_handleRequest_def)
  have 2: "exit_code s = None \<longrightarrow> step isInit opts fails (ChannelClosed t) s = transport_close t s"
    using assms(2) by (simp add: step_def)
  have 3: "map_of (sessions (transport_close t s)) sid = None"
    by (simp add: e delete_conv')
  from len have "sid \<noteq> []" and "sid \<notin> set object_prototype_names"
    by (auto dest: len36_not_inherited)
  with assms(4) 3 have 4: "handle_request isInit opts req ev (transport_close t s) =
      (Replied session_not_found, transport_close t s)"
    by (simp add: handle_request_not_found)
  have 5: "transport_close t (transport_close t s) = transport_close t s"
    using assms(2,3) len by (rule close_twice)
  have 6: "onclose t (transport_close t s) = transport_close t s"
    using assms(2,3) len by (rule onclose_after_close)
  have 7: "AList.delete sid (sessions (transport_close t s)) = sessions (transport_close t s)"
    by (simp add: e AList.delete_idem)
  from 1 2 3 4 5 6 7 show ?thesis by simp
qed

theorem close_removes_session_witness:
  "0 < length (transports one_session) \<and>
   sessionId (transports one_session ! 0) = Some (randomUUID 0) \<and>
   map_of (sessions one_session) (randomUUID 0) = Some 0 \<and>
   sessions (transport_close 0 one_session) = [] \<and>
   replied_status (fst (handle_request (\<lambda>b. b) example_options
      (example_request ''POST'' (Some (randomUUID 0)) None False) Plain
      (transport_close 0 one_session))) = Some 404 \<and>
   transport_close 0 (transport_close 0 one_session) = transport_close 0 one_session"
proof -
  have o: "one_session = run (\<lambda>b. b) example_options (\<lambda>t. False)
      [Request (bearer_request ''re_A'') (Handshake 0)] (main http_config)"
    by (simp add: one_session_def)
  have 1: "0 < length (transports one_session)" by (simp add: one_session_eq)
  have 2: "sessionId (transports one_session ! 0) = Some (randomUUID 0)"
    by (simp add: one_session_eq)
  have 3: "mcp_session_id (example_request ''POST'' (Some (randomUUID 0)) None False) =
      Some (randomUUID 0)"
    by (simp add: example_request_def)
  have 4: "map_of (sessions one_session) (randomUUID 0) = Some 0" by (simp add: one_session_eq)
  have 5: "sessions (transport_close 0 one_session) = []"
    using close_registered[OF 1 2 randomUUID_length] by (simp add: one_session_eq)
  note t = close_removes_session[OF o 1 2 3, of Plain]
  from t have 6: "replied_status (fst (handle_request (\<lambda>b. b) example_options
      (example_request ''POST'' (Some (randomUUID 0)) None False) Plain
      (transport_close 0 one_session))) = Some 404"
    by simp
  from t have 7: "transport_close 0 (transport_close 0 one_session) = transport_close 0 one_session"
    by blast
  from 1 2 4 5 6 7 show ?thesis by blast
qed

section \<open>Fresh identifiers\<close>

lemma old_transport_kept:
  assumes f: "falsy (mcp_session_id req)" and i: "initialize_request isInit req"
    and k: "extractBearerToken (authorization req) = Some k"
    and t: "t < length (transports s)"
  shows "transports (snd (handle_request isInit opts req (Handshake r) s)) ! t = transports s ! t"
proof -
  let ?n = "length (transports s)"
  let ?s1 = "snd (create_session k opts s)"
  have n: "sessionId (transports ?s1 ! ?n) = None" by simp
  from t show ?thesis
    by (simp add: created_session_bound(1)[OF f i k] handshake_eq[OF n] nth_append)
qed

text \<open>
  Claim C8, as amended. In every state the program can reach, a successful session
  creation gives the session the identifier that \<open>randomUUID\<close> returns for the random
  bits it draws, and registers the session under it; no check is made. If that value is
  not among the values the generator returned before, then no transport created earlier,
  closed or not, holds it, and it was not a key of the registry.
\<close>

theorem minted_identifier_fresh:
  assumes "s = run isInit opts fails es (main cfg)"
    and "falsy (mcp_session_id req)" and "initialize_request isInit req"
    and "extractBearerToken (authorization req) = Some k"
  shows "sessionId (transports (snd (handle_request isInit opts req (Handshake r) s)) !
           length (transports s)) = Some (randomUUID r) \<and>
         map_of (sessions (snd (handle_request isInit opts req (Handshake r) s))) (randomUUID r) =
           Some (length (transports s)) \<and>
         minted (snd (handle_request isInit opts req (Handshake r) s)) = minted s @ [randomUUID r] \<and>
         (randomUUID r \<notin> set (minted s) \<longrightarrow>
            map_of (sessions s) (randomUUID r) = None \<and>
            (\<forall>t < length (transports s).
               sessionId (transports (snd (handle_request isInit opts req (Handshake r) s)) ! t)
                 \<noteq> Some (randomUUID r)))"
proof -
  have c: "consistent s" unfolding assms(1) by (rule inv_run) (rule inv_main)
  note b = created_session_bound[OF assms(2,3,4), of opts r s]
  have 4: "randomUUID r \<notin> set (minted s) \<longrightarrow>
            map_of (sessions s) (randomUUID r) = None \<and>
            (\<forall>t < length (transports s).
               sessionId (transports (snd (handle_request isInit opts req (Handshake r) s)) ! t)
                 \<noteq> Some (randomUUID r))"
  proof (intro impI conjI allI)
    assume fresh: "randomUUID r \<notin> set (minted s)"
    have held: "\<And>t. t < length (transports s) \<Longrightarrow> sessionId (transports s ! t) \<noteq> Some (randomUUID r)"
    proof
      fix t assume "t < length (transports s)" "sessionId (transports s ! t) = Some (randomUUID r)"
      with c have "randomUUID r \<in> set (minted s)" unfolding consistent_def ids_ok_def by blast
      with fresh show False by simp
    qed
    show "map_of (sessions s) (randomUUID r) = None"
    proof (cases "map_of (sessions s) (randomUUID r)")
      case None
      then show ?thesis .
    next
      case (Some t)
      with c have "t < length (transports s)" "sessionId (transports s ! t) = Some (randomUUID r)"
        by (auto dest: registered_id_shape)
      with held show ?thesis by blast
    qed
    fix t assume t: "t < length (transports s)"
    with held old_transport_kept[OF assms(2,3,4) t, of opts r]
    show "sessionId (transports (snd (handle_request isInit opts req (Handshake r) s)) ! t)
        \<noteq> Some (randomUUID r)"
      by simp
  qed
  from b(4) b(2) b(5) 4 show ?thesis by blast
qed

theorem minted_identifier_fresh_witness:
  "randomUUID 1 \<notin> set (minted one_session) \<and>
   sessionId (transports (snd (handle_request (\<lambda>b. b) example_options
      (bearer_request ''re_B'') (Handshake 1) one_session)) ! 1) = Some (randomUUID 1) \<and>
   sessionId (transports (snd (handle_request (\<lambda>b. b) example_options
      (bearer_request ''re_B'') (Handshake 1) one_session)) ! 0) \<noteq> Some (randomUUID 1)"
proof -
  have o: "one_session = run (\<lambda>b. b) example_options (\<lambda>t. False)
      [Request (bearer_request ''re_A'') (Handshake 0)] (main http_config)"
    by (simp add: one_session_def)
  have 1: "falsy (mcp_session_id (bearer_request ''re_B''))"
    by (simp add: bearer_request_def example_request_def)
  have 2: "initialize_request (\<lambda>b. b) (bearer_request ''re_B'')"
    by (simp add: bearer_request_def example_request_def initialize_request_def)
  have 3: "extractBearerToken (authorization (bearer_request ''re_B'')) = Some ''re_B''"
    using bearer_tokens by (simp add: bearer_request_def example_request_def)
  have f: "randomUUID 1 \<notin> set (minted one_session)"
    using uuid_0_1 by (simp add: one_session_eq)
  have l: "length (transports one_session) = 1" by (simp add: one_session_eq)
  note t = minted_identifier_fresh[OF o 1 2 3, where r = 1]
  from t l have a: "sessionId (transports (snd (handle_request (\<lambda>b. b) example_options
      (bearer_request ''re_B'') (Handshake 1) one_session)) ! 1) = Some (randomUUID 1)"
    by simp
  from t f l have b: "sessionId (transports (snd (handle_request (\<lambda>b. b) example_options
      (bearer_request ''re_B'') (Handshake 1) one_session)) ! 0) \<noteq> Some (randomUUID 1)"
    by simp
  from f a b show ?thesis by blast
qed

text \<open>
  Claim C8 as stated fails: when \<open>randomUUID\<close> returns the same value for two session
  creations, the second session gets the identifier of the first, and its registry entry
  replaces the first one.
\<close>

theorem identifier_reused:
  "sessionId (transports colliding_sessions ! 0) = Some (randomUUID 0) \<and>
   sessionId (transports colliding_sessions ! 1) = Some (randomUUID 0) \<and>
   minted colliding_sessions = [randomUUID 0, randomUUID 0] \<and>
   sessions colliding_sessions = [(randomUUID 0, 1)]"
  using bearer_tokens
  by (simp add: colliding_sessions_def main_http step_bearer_request)

section \<open>The local transport\<close>

lemma main_stdio:
  "transport_mode cfg = StdioMode \<Longrightarrow>
   main cfg =
     \<lparr>sessions = [], transports = [], stdio_transports = [0],
      servers = [\<lparr>resend = 0, options = server_opts cfg\<rparr>], clients = [apiKey cfg],
      minted = [], listening = False,
      listeners = [(SIGINT, ExitZero), (SIGTERM, ExitZero)], exit_code = None\<rparr>"
  by (simp add: main_def initial_def runStdio_def new_Resend_def createMcpServer_def)

lemma stdio_step:
  assumes "\<not> listening s" and "transports s = []"
    and "listeners s = [(SIGINT, ExitZero), (SIGTERM, ExitZero)]"
  shows "\<exists>c. step isInit opts fails e s = s\<lparr>exit_code := c\<rparr>"
proof (cases "exit_code s = None")
  case False
  then have "step isInit opts fails e s = s\<lparr>exit_code := exit_code s\<rparr>" by (simp add: step_def)
  then show ?thesis ..
next
  case True
  show ?thesis
  proof (cases e)
    case (Request req ev)
    with assms True have "step isInit opts fails e s = s\<lparr>exit_code := exit_code s\<rparr>"
      by (simp add: step_def)
    then show ?thesis ..
  next
    case (ChannelClosed t)
    with assms True have "step isInit opts fails e s = s\<lparr>exit_code := exit_code s\<rparr>"
      by (simp add: step_def)
    then show ?thesis ..
  next
    case (Signal sg)
    with assms True have "step isInit opts fails e s = s\<lparr>exit_code := Some 0\<rparr>"
      by (cases sg) (simp_all add: step_def deliver_signal_def process_exit_def)
    then show ?thesis ..
  qed
qed

lemma stdio_run:
  assumes "\<not> listening s" and "transports s = []"
    and "listeners s = [(SIGINT, ExitZero), (SIGTERM, ExitZero)]"
  shows "\<exists>c. run isInit opts fails es s = s\<lparr>exit_code := c\<rparr>"
  using assms
proof (induction es arbitrary: s)
  case Nil
  have "run isInit opts fails [] s = s\<lparr>exit_code := exit_code s\<rparr>" by simp
  then show ?case ..
next
  case (Cons e es)
  from stdio_step[OF Cons.prems, of isInit opts fails e]
  obtain c where c: "step isInit opts fails e s = s\<lparr>exit_code := c\<rparr>" ..
  let ?s1 = "s\<lparr>exit_code := c\<rparr>"
  from Cons.prems have "\<not> listening ?s1" "transports ?s1 = []"
    "listeners ?s1 = [(SIGINT, ExitZero), (SIGTERM, ExitZero)]" by simp_all
  from Cons.IH[OF this] obtain c' where "run isInit opts fails es ?s1 = ?s1\<lparr>exit_code := c'\<rparr>" ..
  with c have "run isInit opts fails (e # es) s = s\<lparr>exit_code := c'\<rparr>" by simp
  then show ?case ..
qed

text \<open>
  Claim C9. \<open>runStdio\<close> builds one protocol server on the handle it is given and connects
  it to one \<open>StdioServerTransport\<close>; it takes no request and no header, and it neither
  reads nor writes the registry. In stdio mode, whatever happens to the process
  afterwards, there is exactly that one protocol server, on the one handle constructed
  from the startup key, no HTTP transport exists and the registry is empty.
\<close>

theorem stdio_single_server:
  assumes "transport_mode cfg = StdioMode"
  shows "servers (run isInit opts fails es (main cfg)) = [\<lparr>resend = 0, options = server_opts cfg\<rparr>] \<and>
         stdio_transports (run isInit opts fails es (main cfg)) = [0] \<and>
         clients (run isInit opts fails es (main cfg)) = [apiKey cfg] \<and>
         transports (run isInit opts fails es (main cfg)) = [] \<and>
         sessions (run isInit opts fails es (main cfg)) = [] \<and>
         \<not> listening (run isInit opts fails es (main cfg)) \<and>
         servers (runStdio c opts' s0) = servers s0 @ [\<lparr>resend = c, options = opts'\<rparr>] \<and>
         stdio_transports (runStdio c opts' s0) = stdio_transports s0 @ [length (servers s0)] \<and>
         transports (runStdio c opts' s0) = transports s0 \<and>
         clients (runStdio c opts' s0) = clients s0 \<and>
         sessions (runStdio c opts' s0) = sessions s0 \<and>
         runStdio c opts' (s0\<lparr>sessions := reg\<rparr>) = (runStdio c opts' s0)\<lparr>sessions := reg\<rparr>"
proof -
  let ?m = "main cfg"
  note m = main_stdio[OF assms]
  have "\<not> listening ?m" "transports ?m = []"
    "listeners ?m = [(SIGINT, ExitZero), (SIGTERM, ExitZero)]"
    by (simp_all add: m)
  from stdio_run[OF this, of isInit opts fails es]
  obtain x where x: "run isInit opts fails es ?m = ?m\<lparr>exit_code := x\<rparr>" ..
  have a: "servers (run isInit opts fails es ?m) = [\<lparr>resend = 0, options = server_opts cfg\<rparr>]"
    "stdio_transports (run isInit opts fails es ?m) = [0]"
    "clients (run isInit opts fails es ?m) = [apiKey cfg]"
    "transports (run isInit opts fails es ?m) = []"
    "sessions (run isInit opts fails es ?m) = []"
    "\<not> listening (run isInit opts fails es ?m)"
    unfolding x by (simp_all add: m)
  have b: "servers (runStdio c opts' s0) = servers s0 @ [\<lparr>resend = c, options = opts'\<rparr>]"
    "stdio_transports (runStdio c opts' s0) = stdio_transports s0 @ [length (servers s0)]"
    "transports (runStdio c opts' s0) = transports s0"
    "clients (runStdio c opts' s0) = clients s0"
    "sessions (runStdio c opts' s0) = sessions s0"
    "runStdio c opts' (s0\<lparr>sessions := reg\<rparr>) = (runStdio c opts' s0)\<lparr>sessions := reg\<rparr>"
    by (simp_all add: runStdio_def createMcpServer_def)
  from a b show ?thesis by blast
qed

theorem stdio_single_server_witness:
  "transport_mode stdio_config = StdioMode \<and>
   servers (run (\<lambda>b. b) example_options (\<lambda>t. False)
     [Request (bearer_request ''re_A'') (Handshake 0), ChannelClosed 0]
     (main stdio_config)) = [\<lparr>resend = 0, options = example_options\<rparr>] \<and>
   clients (run (\<lambda>b. b) example_options (\<lambda>t. False)
     [Request (bearer_request ''re_A'') (Handshake 0), ChannelClosed 0]
     (main stdio_config)) = [''re_local''] \<and>
   sessions (run (\<lambda>b. b) example_options (\<lambda>t. False)
     [Request (bearer_request ''re_A'') (Handshake 0), ChannelClosed 0]
     (main stdio_config)) = []"
proof -
  have m: "transport_mode stdio_config = StdioMode" by (simp add: stdio_config_def)
  note t = stdio_single_server[OF m, of "\<lambda>b. b" example_options "\<lambda>t. False"
      "[Request (bearer_request ''re_A'') (Handshake 0), ChannelClosed 0]"]
  from t m show ?thesis by (simp add: stdio_config_def)
qed

section \<open>Signals and shutdown\<close>

lemma listeners_transport_handleRequest [simp]:
  "listeners (transport_handleRequest t ev s) = listeners s"
proof (cases ev)
  case (Handshake r)
  then show ?thesis
    by (cases "sessionId (transports s ! t) = None") (simp_all add: handshake_eq handshake_refused)
qed (simp_all add: transport_handleRequest_def)

lemma listeners_create_path [simp]: "listeners (snd (create_path opts req ev s)) = listeners s"
  by (simp add: create_path_cases split: option.splits)

lemma listeners_handle_request [simp]:
  "listeners (snd (handle_request isInit opts req ev s)) = listeners s"
  using handle_request_cases[of isInit opts req ev s] by auto

lemma only_removes_listeners: "only_removes s s' \<Longrightarrow> listeners s' = listeners s"
  by (simp add: only_removes_def)

lemma listeners_step [simp]: "listeners (step isInit opts fails e s) = listeners s"
  by (cases e)
     (simp_all add: step_def only_removes_listeners[OF only_removes_deliver_signal])

lemma listeners_run [simp]: "listeners (run isInit opts fails es s) = listeners s"
  by (induction es arbitrary: s) simp_all

lemma main_http_mode:
  "transport_mode cfg = HttpMode \<Longrightarrow>
   listeners (main cfg) =
     [(SIGINT, ExitZero), (SIGTERM, ExitZero), (SIGINT, Shutdown), (SIGTERM, Shutdown)]"
  by (simp add: main_def initial_def runHttp_def)

text \<open>
  Claim C2 does not hold of the program. In network mode the entry point has registered
  \<open>() => process.exit(0)\<close> for both signals before \<open>runHttp\<close> registers \<open>shutdown\<close>, and the
  listeners of a signal run in the order of their registration: in every state the
  program can reach, a signal makes the process exit with code 0 at once, with the
  registry, the transports and the listener as they were.
\<close>

theorem exit_before_shutdown:
  assumes "transport_mode cfg = HttpMode" and "s = run isInit opts fails es (main cfg)"
    and "exit_code s = None"
  shows "deliver_signal fails sg s = process_exit 0 s \<and>
         exit_code (deliver_signal fails sg s) = Some 0 \<and>
         sessions (deliver_signal fails sg s) = sessions s \<and>
         transports (deliver_signal fails sg s) = transports s \<and>
         listening (deliver_signal fails sg s) = listening s"
proof -
  have l: "listeners s =
      [(SIGINT, ExitZero), (SIGTERM, ExitZero), (SIGINT, Shutdown), (SIGTERM, Shutdown)]"
    unfolding assms(2) by (simp add: main_http_mode[OF assms(1)])
  have "deliver_signal fails sg s = process_exit 0 s"
    using assms(3) by (cases sg) (simp_all add: deliver_signal_def l)
  then show ?thesis by (simp add: process_exit_def)
qed

theorem exit_before_shutdown_witness:
  "transport_mode http_config = HttpMode \<and> exit_code one_session = None \<and>
   exit_code (deliver_signal (\<lambda>t. False) SIGINT one_session) = Some 0 \<and>
   sessions (deliver_signal (\<lambda>t. False) SIGINT one_session) = [(randomUUID 0, 0)] \<and>
   \<not> closed (transports (deliver_signal (\<lambda>t. False) SIGINT one_session) ! 0) \<and>
   listening (deliver_signal (\<lambda>t. False) SIGINT one_session)"
proof -
  have m: "transport_mode http_config = HttpMode" by (simp add: http_config_def)
  have o: "one_session = run (\<lambda>b. b) example_options (\<lambda>t. False)
      [Request (bearer_request ''re_A'') (Handshake 0)] (main http_config)"
    by (simp add: one_session_def)
  have e: "exit_code one_session = None" by (simp add: one_session_eq)
  note t = exit_before_shutdown[OF m o e, where sg = SIGINT]
  from t have d: "deliver_signal (\<lambda>t. False) SIGINT one_session = process_exit 0 one_session"
    by (rule conjunct1)
  show ?thesis unfolding d by (simp add: m e process_exit_def one_session_eq)
qed

lemma map_le_None: "m' \<subseteq>\<^sub>m m \<Longrightarrow> m k = None \<Longrightarrow> m' k = None"
  by (metis domIff map_le_def)

lemma only_removes_None:
  assumes "only_removes s s'" and "map_of (sessions s) k = None"
  shows "map_of (sessions s') k = None"
proof -
  from assms(1) have "map_of (sessions s') \<subseteq>\<^sub>m map_of (sessions s)"
    unfolding only_removes_def by (elim conjE)
  then show ?thesis using assms(2) by (rule map_le_None)
qed

lemma shutdown_loop_deletes:
  "k \<in> set ks \<Longrightarrow> map_of (sessions (shutdown_loop fails ks s)) k = None"
proof (induction ks arbitrary: s)
  case Nil
  then show ?case by simp
next
  case (Cons sid sids)
  let ?s1 = "try_close fails sid s"
  let ?s2 = "?s1\<lparr>sessions := AList.delete sid (sessions ?s1)\<rparr>"
  have unroll: "shutdown_loop fails (sid # sids) s = shutdown_loop fails sids ?s2"
    by (simp add: Let_def)
  show ?case
  proof (cases "k = sid")
    case True
    have "map_of (sessions ?s2) k = None" using True by (simp add: delete_conv')
    with only_removes_shutdown_loop
    have "map_of (sessions (shutdown_loop fails sids ?s2)) k = None"
      by (rule only_removes_None)
    then show ?thesis unfolding unroll .
  next
    case False
    with Cons.prems have "k \<in> set sids" by simp
    then have "map_of (sessions (shutdown_loop fails sids ?s2)) k = None" by (rule Cons.IH)
    then show ?thesis unfolding unroll .
  qed
qed

text \<open>
  What \<open>shutdown\<close> does when it does run: every key of the snapshot is deleted, whether
  or not its \<open>close()\<close> throws, so the registry ends empty, the listener is stopped and
  the exit code is 0.
\<close>

theorem shutdown_drains:
  "sessions (shutdown fails s) = [] \<and> exit_code (shutdown fails s) = Some 0 \<and>
   \<not> listening (shutdown fails s)"
proof -
  let ?s' = "shutdown_loop fails (map fst (sessions s)) s"
  have n: "map_of (sessions ?s') k = None" for k
  proof (cases "k \<in> set (map fst (sessions s))")
    case True
    then show ?thesis by (rule shutdown_loop_deletes)
  next
    case False
    then have "map_of (sessions s) k = None" by (simp add: map_of_eq_None_iff)
    with only_removes_shutdown_loop show ?thesis by (rule only_removes_None)
  qed
  have "sessions ?s' = []"
  proof (cases "sessions ?s'")
    case Nil
    then show ?thesis .
  next
    case (Cons p ps)
    then have "map_of (sessions ?s') (fst p) = Some (snd p)" by simp
    with n[of "fst p"] show ?thesis by simp
  qed
  then show ?thesis by (simp add: shutdown_def process_exit_def server_close_def)
qed

section \<open>Names inherited by the registry object\<close>

text \<open>
  A session header that is the name of a member the registry object inherits from
  \<open>Object.prototype\<close>, and is not a key of the registry, passes the first test of the
  handler: the handler then calls \<open>handleRequest\<close> on the inherited member, which throws,
  and neither the 404 nor the 400 reply is written.
\<close>

theorem inherited_name_throws:
  assumes "mcp_session_id req = Some sid" and "sid \<in> set object_prototype_names"
    and "map_of (sessions s) sid = None"
  shows "handle_request isInit opts req ev s = (Threw, s)"
proof -
  from assms(2) have "sid \<noteq> []" by (auto simp: object_prototype_names_def)
  with assms show ?thesis
    by (simp add: handle_request_def select_branch_def get_member_def)
qed

theorem inherited_name_throws_witness:
  "''constructor'' \<in> set object_prototype_names \<and>
   map_of (sessions (main http_config)) ''constructor'' = None \<and>
   handle_request (\<lambda>b. b) example_options
     (example_request ''GET'' (Some ''constructor'') None False) Plain (main http_config) =
   (Threw, main http_config)"
proof -
  have 1: "mcp_session_id (example_request ''GET'' (Some ''constructor'') None False) =
      Some ''constructor''"
    by (simp add: example_request_def)
  have 2: "''constructor'' \<in> set object_prototype_names"
    by (simp add: object_prototype_names_def)
  have 3: "map_of (sessions (main http_config)) ''constructor'' = None"
    by (simp add: main_http)
  from inherited_name_throws[OF 1 2 3, of "\<lambda>b. b" example_options Plain] 2 3
  show ?thesis by simp
qed

section \<open>Session identifiers along a run\<close>






















section \<open>Credential isolation by identifier\<close>






section \<open>The empty session header\<close>

text \<open>
  Claim C10, as amended. A request whose \<open>mcp-session-id\<close> header is the empty string is
  handled exactly as the same request without the header. When it is an initialize
  request it takes the create path: with a bearer credential a session is created on a
  new transport, and without one it is answered with 401 and nothing is changed. When it
  is not an initialize request it is answered with 400 and nothing is changed. It is
  never answered with 404.
\<close>

theorem empty_session_header_as_absent:
  "handle_request isInit opts (req\<lparr>mcp_session_id := Some []\<rparr>) ev s =
     handle_request isInit opts (req\<lparr>mcp_session_id := None\<rparr>) ev s \<and>
   handle_request isInit opts (req\<lparr>mcp_session_id := Some []\<rparr>) ev s =
     (if initialize_request isInit req then
        (case extractBearerToken (authorization req) of
           None \<Rightarrow> (Replied (sendJsonRpcError 401 unauthorized_message), s)
         | Some k \<Rightarrow>
             (Handled (length (transports s)),
              transport_handleRequest (length (transports s)) ev (snd (create_session k opts s))))
      else (Replied (sendJsonRpcError 400 ''Bad Request: No valid session ID provided''), s)) \<and>
   replied_status (fst (handle_request isInit opts (req\<lparr>mcp_session_id := Some []\<rparr>) ev s))
     \<noteq> Some 404"
proof -
  have a: "handle_request isInit opts (req\<lparr>mcp_session_id := Some []\<rparr>) ev s =
     (if initialize_request isInit req then create_path opts req ev s
      else (Replied (sendJsonRpcError 400 ''Bad Request: No valid session ID provided''), s))"
    by (simp add: handle_request_falsy)
  have b: "handle_request isInit opts (req\<lparr>mcp_session_id := None\<rparr>) ev s =
     (if initialize_request isInit req then create_path opts req ev s
      else (Replied (sendJsonRpcError 400 ''Bad Request: No valid session ID provided''), s))"
    by (simp add: handle_request_falsy)
  have c: "replied_status (fst (handle_request isInit opts (req\<lparr>mcp_session_id := Some []\<rparr>) ev s))
     \<noteq> Some 404"
    using create_path_status[of opts req ev s] unfolding a by auto
  from a b c show ?thesis by (simp add: create_path_cases)
qed

theorem empty_session_header_as_absent_witness:
  "replied_status (fst (handle_request (\<lambda>b. b) example_options
      ((example_request ''GET'' None None False)\<lparr>mcp_session_id := Some []\<rparr>) Plain
      (main http_config))) = Some 400 \<and>
   replied_status (fst (handle_request (\<lambda>b. b) example_options
      ((example_request ''POST'' None (Some ''Basic abc'') True)\<lparr>mcp_session_id := Some []\<rparr>) Plain
      (main http_config))) = Some 401 \<and>
   fst (handle_request (\<lambda>b. b) example_options
      ((example_request ''POST'' None (Some ''Bearer re_A'') True)\<lparr>mcp_session_id := Some []\<rparr>)
      (Handshake 0) (main http_config)) = Handled 0 \<and>
   handle_request (\<lambda>b. b) example_options
      ((example_request ''POST'' None (Some ''Basic abc'') True)\<lparr>mcp_session_id := Some []\<rparr>) Plain
      (main http_config) =
   handle_request (\<lambda>b. b) example_options
      ((example_request ''POST'' None (Some ''Basic abc'') True)\<lparr>mcp_session_id := None\<rparr>) Plain
      (main http_config)"
proof -
  let ?G = "example_request ''GET'' None None False"
  let ?B = "example_request ''POST'' None (Some ''Basic abc'') True"
  let ?A = "example_request ''POST'' None (Some ''Bearer re_A'') True"
  have g: "\<not> initialize_request (\<lambda>b. b) ?G"
    by (simp add: initialize_request_def example_request_def)
  have ib: "initialize_request (\<lambda>b. b) ?B" "extractBearerToken (authorization ?B) = None"
    by (simp_all add: initialize_request_def example_request_def extractBearerToken_def
        startsWith_def)
  have ia: "initialize_request (\<lambda>b. b) ?A" "extractBearerToken (authorization ?A) = Some ''re_A''"
    using bearer_tokens by (simp_all add: initialize_request_def example_request_def)
  have l: "length (transports (main http_config)) = 0" by (simp add: main_http)
  note tg = empty_session_header_as_absent[of "\<lambda>b. b" example_options ?G Plain "main http_config"]
  note tb = empty_session_header_as_absent[of "\<lambda>b. b" example_options ?B Plain "main http_config"]
  note ta = empty_session_header_as_absent[of "\<lambda>b. b" example_options ?A "Handshake 0"
      "main http_config"]
  from tg[THEN conjunct2, THEN conjunct1] g
  have 1: "replied_status (fst (handle_request (\<lambda>b. b) example_options
      (?G\<lparr>mcp_session_id := Some []\<rparr>) Plain (main http_config))) = Some 400"
    by simp
  from tb[THEN conjunct2, THEN conjunct1] ib
  have 2: "replied_status (fst (handle_request (\<lambda>b. b) example_options
      (?B\<lparr>mcp_session_id := Some []\<rparr>) Plain (main http_config))) = Some 401"
    by simp
  from ta[THEN conjunct2, THEN conjunct1] ia l
  have 3: "fst (handle_request (\<lambda>b. b) example_options
      (?A\<lparr>mcp_session_id := Some []\<rparr>) (Handshake 0) (main http_config)) = Handled 0"
    by simp
  note 4 = tb[THEN conjunct1]
  from 1 2 3 4 show ?thesis by blast
qed

text \<open>
  Claim C10 as stated fails: an initialize request with an empty session header and no
  bearer credential does not take the way to a new session, yet the answer is 401, not
  400.
\<close>

theorem empty_header_initialize_401:
  "mcp_session_id (example_request ''POST'' (Some []) None True) = Some [] \<and>
   initialize_request (\<lambda>b. b) (example_request ''POST'' (Some []) None True) \<and>
   extractBearerToken (authorization (example_request ''POST'' (Some []) None True)) = None \<and>
   handle_request (\<lambda>b. b) example_options (example_request ''POST'' (Some []) None True) Plain
     (main http_config) = (Replied (sendJsonRpcError 401 unauthorized_message), main http_config) \<and>
   replied_status (fst (handle_request (\<lambda>b. b) example_options
     (example_request ''POST'' (Some []) None True) Plain (main http_config))) \<noteq> Some 400"
  by (simp add: example_request_def initialize_request_def extractBearerToken_def
      handle_request_falsy create_path_cases)

end
